theory Spec2Isabelle
  imports Main "HOL-Library.AList"
begin

section \<open>The LastExpress debug console (engines/lastexpress/debug.cpp)\<close>

text \<open>
  The console's command handlers are embedded as state transformers over a record of
  the \<open>Debugger\<close> members, the engine fields the handlers read and write directly,
  and a log of the calls made to the engine's collaborators (resource manager, scene
  manager, graphics, cursor, sound, fight, beetle, logic), in program order.
  What a collaborator answers is not decided by debug.cpp: it is a parameter of the
  model (the record \<open>env\<close>), a function of the calls made so far.
\<close>

subsection \<open>Handlers, collaborator calls, console texts\<close>

text \<open>The nine handlers that are ever stored in \<open>_command\<close> (\<open>WRAP_METHOD\<close>).\<close>

datatype handler =
    CmdShowFrame | CmdShowBg | CmdPlaySeq | CmdPlaySbe | CmdPlayNis
  | CmdLoadScene | CmdFight | CmdBeetle | CmdSwitchChapter

text \<open>\<open>GraphicsManager::BackgroundType\<close>, as far as debug.cpp names it.\<close>

datatype background = BackgroundA | BackgroundC | BackgroundOverlay | BackgroundAll

text \<open>What is handed to \<open>GraphicsManager::draw\<close>: a frame of a sequence file, a
  background file, the sequence player at a frame, the subtitles at a time, a scene.\<close>

datatype drawable =
    AnimFrame string nat
  | Background string
  | SequenceFrame string nat
  | Subtitle string nat
  | Scene int

text \<open>The texts of \<open>debugPrintf\<close>, one constructor per format string, with the
  values formatted into it.\<close>

datatype message =
    InvalidCd int                \<comment> \<open>Invalid cd number (was: %d, valid: [1-3])\<close>
  | CannotFindFile string        \<comment> \<open>Cannot find file: %s\<close>
  | InvalidFrameIndex string     \<comment> \<open>Invalid frame index '%s'\<close>
  | InvalidSceneIndex            \<comment> \<open>Error: invalid index value (0-2500)\<close>
  | CannotLoadScene int int      \<comment> \<open>Cannot load scene %i from CD %i\<close>
  | FailedLoadArchive int        \<comment> \<open>Error: failed to load archive %d\<close>
  | FailedLoadArchive2           \<comment> \<open>Error: failed to load archive 2\<close>
  | LostFight                    \<comment> \<open>Lost fight!\<close>
  | WonFight                     \<comment> \<open>Won fight!\<close>
  | SyntaxShowFrame | SyntaxShowBg | SyntaxPlaySeq | SyntaxPlaySbe | SyntaxPlayNis
  | SyntaxLoadScene | SyntaxFight | SyntaxBeetle | SyntaxDelta | SyntaxChapter

text \<open>\<open>Common::Event\<close>, by the types the handlers switch on; a key press carries
  its keycode.\<close>

datatype input = KeyDown int | MouseMove | LButtonUp | RButtonUp | OtherInput

datatype cursor_style = CursorNormal | CursorOf int

text \<open>A call to a collaborator, with its arguments.\<close>

datatype call =
    DebugPrintf message
  | CmdExit                      \<comment> \<open>\<open>GUI::Debugger::cmdExit\<close>: leave the console\<close>
  | RmLoadArchive int            \<comment> \<open>\<open>ResourceManager::loadArchive\<close>\<close>
  | LoadSceneDataFile int        \<comment> \<open>\<open>SceneManager::loadSceneDataFile\<close>\<close>
  | ClearBg background
  | Draw drawable background
  | AskForRedraw
  | RedrawScreen
  | DelayMillis nat
  | CursorShow bool
  | CursorSetStyle cursor_style
  | PollEvent
  | StopAllSound
  | FightSetup int               \<comment> \<open>\<open>Fight::setup\<close>\<close>
  | SwitchChapter                \<comment> \<open>\<open>Logic::switchChapter\<close>\<close>
  | AnimationPlay string         \<comment> \<open>\<open>Animation::play\<close> of a loaded .nis file\<close>
  | PlayAnimation int            \<comment> \<open>\<open>Action::playAnimation\<close>\<close>
  | BeetleNew | BeetleLoad | BeetleUpdate | BeetleUnload
  | CatchBeetle                  \<comment> \<open>\<open>Beetle::catchBeetle\<close>\<close>
  | SetCoordinates

subsection \<open>The state\<close>

text \<open>The engine fields debug.cpp reads and writes: \<open>getProgress().chapter\<close>
  (the field \<open>progressChapter\<close>),
  \<open>getState()->scene\<close>, \<open>getInventory()->get(kItemBeetle)->location\<close> and
  \<open>getState()->timeDelta\<close>.\<close>

record game =
  progressChapter :: int
  scene :: int
  beetleLocation :: int
  timeDelta :: nat

text \<open>
  The pending command lives in heap blocks the debugger owns: the functor made by
  \<open>WRAP_METHOD\<close>, the array of \<open>char *\<close> and one string per argument.
  A pointer is an address or null (\<open>None\<close>). Freeing an address that is not
  allocated, and reading through one, is recorded in \<open>faults\<close>.
\<close>

type_synonym addr = nat

datatype block = Debuglet handler | CString string | ParamArray "addr option list"

datatype fault = InvalidFree addr | InvalidRead

record debugger =
  command :: "addr option"
  numParams :: int
  commandParams :: "addr option"
  heap :: "(addr \<times> block) list"
  nextAddr :: addr
  faults :: "fault list"
  game :: game
  calls :: "call list"

subsection \<open>Allocation\<close>

text \<open>\<open>malloc\<close> and \<open>new\<close>: a fresh block. Allocation always succeeds in this
  model, so the out-of-memory branches of \<open>copyCommand\<close> (an early return, and
  \<open>error()\<close>) are not taken.\<close>

definition malloc :: "block \<Rightarrow> debugger \<Rightarrow> addr \<times> debugger" where
  "malloc b s =
     (nextAddr s, s\<lparr>heap := (nextAddr s, b) # heap s, nextAddr := Suc (nextAddr s)\<rparr>)"

text \<open>\<open>free\<close> and \<open>delete\<close>: nothing on null, a fault on an address that is not
  allocated.\<close>

definition free :: "addr option \<Rightarrow> debugger \<Rightarrow> debugger" where
  "free p s =
     (case p of
        None \<Rightarrow> s
      | Some a \<Rightarrow>
          (case map_of (heap s) a of
             None \<Rightarrow> s\<lparr>faults := faults s @ [InvalidFree a]\<rparr>
           | Some b \<Rightarrow> s\<lparr>heap := AList.delete a (heap s)\<rparr>))"

text \<open>\<open>free(_commandParams[i])\<close>, reading the array at \<open>p\<close>.\<close>

definition freeParam :: "addr \<Rightarrow> nat \<Rightarrow> debugger \<Rightarrow> debugger" where
  "freeParam p i s =
     (case map_of (heap s) p of
        Some (ParamArray es) \<Rightarrow>
          if i < length es then free (es ! i) s
          else s\<lparr>faults := faults s @ [InvalidRead]\<rparr>
      | _ \<Rightarrow> s\<lparr>faults := faults s @ [InvalidRead]\<rparr>)"

subsection \<open>Helper functions of the debugger\<close>

definition hasCommand :: "debugger \<Rightarrow> bool" where
  "hasCommand s = (numParams s \<noteq> 0)"

text \<open>\<open>SAFE_DELETE(_command)\<close> deletes the functor and nulls the pointer; the loop
  runs \<open>i\<close> from 0 while \<open>i < _numParams\<close>, only when the array is not null.\<close>

definition resetCommand :: "debugger \<Rightarrow> debugger" where
  "resetCommand s =
     (let s1 = (free (command s) s)\<lparr>command := None\<rparr>;
          s2 = (case commandParams s1 of
                  None \<Rightarrow> s1
                | Some p \<Rightarrow> fold (freeParam p) [0..<nat (numParams s1)] s1);
          s3 = free (commandParams s2) s2
      in s3\<lparr>commandParams := None, numParams := 0\<rparr>)"

text \<open>The representation of the slot: every allocated address is below the next
  fresh one; a non-null \<open>_command\<close> points to a functor; a non-null
  \<open>_commandParams\<close> points to an array of exactly \<open>_numParams\<close> entries, each a
  pointer to an allocated string of its own; a null one goes with a count of zero.\<close>

definition isString :: "debugger \<Rightarrow> addr option \<Rightarrow> bool" where
  "isString s e =
     (case e of
        None \<Rightarrow> False
      | Some a \<Rightarrow> (case map_of (heap s) a of Some (CString t) \<Rightarrow> True | _ \<Rightarrow> False))"

definition heapOk :: "debugger \<Rightarrow> bool" where
  "heapOk s = list_all (\<lambda>(a, b). a < nextAddr s) (heap s)"

definition slotRep :: "debugger \<Rightarrow> bool" where
  "slotRep s =
     (heapOk s \<and>
      (case command s of
         None \<Rightarrow> True
       | Some c \<Rightarrow> (case map_of (heap s) c of Some (Debuglet h) \<Rightarrow> True | _ \<Rightarrow> False)) \<and>
      (case commandParams s of
         None \<Rightarrow> numParams s = 0
       | Some p \<Rightarrow>
           (case map_of (heap s) p of
              Some (ParamArray es) \<Rightarrow>
                numParams s = int (length es) \<and> list_all (isString s) es \<and> distinct es
            | _ \<Rightarrow> False)))"

subsection \<open>The collaborators\<close>

text \<open>
  What the engine's other classes answer, as functions of the calls made so far.
  \<open>engineEffect\<close> is what a call into the game logic (fight, beetle, chapter
  switch, animation) does to the engine fields, and \<open>engineResult\<close> the boolean it
  returns. Resource, scene, graphics, cursor, sound and timer calls leave the four
  engine fields alone.
\<close>

record env =
  rmLoadArchive :: "call list \<Rightarrow> int \<Rightarrow> bool"
  rmHasFile :: "call list \<Rightarrow> string \<Rightarrow> bool"
  sequenceLoad :: "call list \<Rightarrow> string \<Rightarrow> bool"
  sequenceCount :: "call list \<Rightarrow> string \<Rightarrow> nat"
  sequenceGetFrame :: "call list \<Rightarrow> string \<Rightarrow> nat \<Rightarrow> bool"
  loadBackground :: "call list \<Rightarrow> string \<Rightarrow> bool"
  subtitleLoad :: "call list \<Rightarrow> string \<Rightarrow> bool"
  subtitleMaxTime :: "call list \<Rightarrow> string \<Rightarrow> nat"
  animationLoad :: "call list \<Rightarrow> string \<Rightarrow> bool"
  scenesGet :: "call list \<Rightarrow> int \<Rightarrow> bool"
  pollEvent :: "call list \<Rightarrow> input option"
  mouseCursor :: "call list \<Rightarrow> cursor_style"
  beetleIsLoaded :: "call list \<Rightarrow> bool"
  engineResult :: "call list \<Rightarrow> call \<Rightarrow> game \<Rightarrow> bool"
  engineEffect :: "call list \<Rightarrow> call \<Rightarrow> game \<Rightarrow> game"

definition emit :: "call \<Rightarrow> debugger \<Rightarrow> debugger" where
  "emit c s = s\<lparr>calls := calls s @ [c]\<rparr>"

definition emits :: "call list \<Rightarrow> debugger \<Rightarrow> debugger" where
  "emits cs s = s\<lparr>calls := calls s @ cs\<rparr>"

definition invoke :: "env \<Rightarrow> call \<Rightarrow> debugger \<Rightarrow> debugger" where
  "invoke env c s =
     s\<lparr>game := engineEffect env (calls s) c (game s), calls := calls s @ [c]\<rparr>"

definition debugPrintf :: "message \<Rightarrow> debugger \<Rightarrow> debugger" where
  "debugPrintf m s = emit (DebugPrintf m) s"

text \<open>Modelled from the spec: \<open>GUI::Debugger::cmdExit\<close> (gui/debugger.cpp is not among
  the sources) "signals the hosting console to terminate its synchronous input loop";
  it returns false. The model logs the call.\<close>

definition cmdExit :: "debugger \<Rightarrow> debugger" where
  "cmdExit s = emit CmdExit s"

subsection \<open>Numbers from arguments\<close>

text \<open>
  \<open>strtol\<close> of the C library: leading white space, an optional sign, with base 0 a
  prefix \<open>0x\<close> (hexadecimal) or \<open>0\<close> (octal), then the longest run of digits of
  the base; 0 when there is none; clamped to the range of \<open>long\<close>, taken as 64 bits
  wide. \<open>getNumber\<close> returns the value as an \<open>int\<close>.
\<close>

definition isSpace :: "char \<Rightarrow> bool" where
  "isSpace c = (c \<in> set [CHR '' '', CHR 0x09, CHR 0x0A, CHR 0x0B, CHR 0x0C, CHR 0x0D])"

definition digitOf :: "char \<Rightarrow> nat" where
  "digitOf c =
     (let n = (of_char c :: nat)
      in if 48 \<le> n \<and> n \<le> 57 then n - 48
         else if 97 \<le> n \<and> n \<le> 122 then n - 87
         else if 65 \<le> n \<and> n \<le> 90 then n - 55
         else 36)"

fun digits :: "nat \<Rightarrow> string \<Rightarrow> nat \<Rightarrow> nat" where
  "digits b [] acc = acc"
| "digits b (c # cs) acc = (if digitOf c < b then digits b cs (acc * b + digitOf c) else acc)"

fun sign :: "string \<Rightarrow> bool \<times> string" where
  "sign [] = (False, [])"
| "sign (c # cs) =
     (if c = CHR ''-'' then (True, cs) else if c = CHR ''+'' then (False, cs) else (False, c # cs))"

fun radix :: "nat \<Rightarrow> string \<Rightarrow> nat \<times> string" where
  "radix b (z # x # h # cs) =
     (if b \<noteq> 0 then (b, z # x # h # cs)
      else if z = CHR ''0'' \<and> (x = CHR ''x'' \<or> x = CHR ''X'') \<and> digitOf h < 16 then (16, h # cs)
      else if z = CHR ''0'' then (8, z # x # h # cs)
      else (10, z # x # h # cs))"
| "radix b cs =
     (if b \<noteq> 0 then (b, cs)
      else if cs \<noteq> [] \<and> hd cs = CHR ''0'' then (8, cs)
      else (10, cs))"

definition strtol :: "nat \<Rightarrow> string \<Rightarrow> int" where
  "strtol base str =
     (let (neg, s1) = sign (dropWhile isSpace str);
          (b, s2) = radix base s1;
          v = int (digits b s2 0)
      in if neg then max (- v) (- (2 ^ 63)) else min v (2 ^ 63 - 1))"

text \<open>The conversion of a \<open>long\<close> to \<open>int\<close>: the low 32 bits, two's complement.\<close>

definition toInt :: "int \<Rightarrow> int" where
  "toInt v = (v + 2 ^ 31) mod 2 ^ 32 - 2 ^ 31"

definition getNumber :: "string \<Rightarrow> int" where
  "getNumber arg = toInt (strtol 0 arg)"

text \<open>\<open>atoi\<close> of the C library, as \<open>(int) strtol(s, NULL, 10)\<close>.\<close>

definition atoi :: "string \<Rightarrow> int" where
  "atoi arg = toInt (strtol 10 arg)"

subsection \<open>Storing and calling the pending command\<close>

text \<open>\<open>_command = WRAP_METHOD(Debugger, cmdX)\<close>: a new functor; the old pointer is
  overwritten.\<close>

definition setCommand :: "handler \<Rightarrow> debugger \<Rightarrow> debugger" where
  "setCommand h s = (let (c, s1) = malloc (Debuglet h) s in s1\<lparr>command := Some c\<rparr>)"

text \<open>\<open>_commandParams[i] = p\<close>.\<close>

definition writeParam :: "nat \<Rightarrow> addr option \<Rightarrow> debugger \<Rightarrow> debugger" where
  "writeParam i e s =
     (case commandParams s of
        None \<Rightarrow> s\<lparr>faults := faults s @ [InvalidRead]\<rparr>
      | Some p \<Rightarrow>
          (case map_of (heap s) p of
             Some (ParamArray es) \<Rightarrow>
               if i < length es
               then s\<lparr>heap := AList.update p (ParamArray (es[i := e])) (heap s)\<rparr>
               else s\<lparr>faults := faults s @ [InvalidRead]\<rparr>
           | _ \<Rightarrow> s\<lparr>faults := faults s @ [InvalidRead]\<rparr>))"

text \<open>One round of the loop of \<open>copyCommand\<close>: a string of its own for
  \<open>argv[i]\<close>.\<close>

definition copyParam :: "string list \<Rightarrow> nat \<Rightarrow> debugger \<Rightarrow> debugger" where
  "copyParam argv i s = (let (a, s1) = malloc (CString (argv ! i)) s in writeParam i (Some a) s1)"

text \<open>\<open>copyCommand(argc, argv)\<close>, with \<open>argc\<close> the length of \<open>argv\<close>; the entries
  of the new array are unset (null here) until the loop writes them.\<close>

definition copyCommand :: "string list \<Rightarrow> debugger \<Rightarrow> debugger" where
  "copyCommand argv s =
     (let (p, s1) = malloc (ParamArray (replicate (length argv) None)) s;
          s2 = s1\<lparr>commandParams := Some p, numParams := int (length argv)\<rparr>;
          s3 = fold (copyParam argv) [0..<nat (numParams s2)] s2
      in cmdExit s3)"

text \<open>The argument vector a handler sees when called with \<open>_numParams\<close> and
  \<open>_commandParams\<close>: the first \<open>_numParams\<close> strings of the array; \<open>None\<close> when
  one of them cannot be read.\<close>

definition readString :: "debugger \<Rightarrow> addr option \<Rightarrow> string option" where
  "readString s e =
     (case e of
        None \<Rightarrow> None
      | Some a \<Rightarrow> (case map_of (heap s) a of Some (CString t) \<Rightarrow> Some t | _ \<Rightarrow> None))"

definition readParams :: "debugger \<Rightarrow> string list option" where
  "readParams s =
     (if numParams s \<le> 0 then Some []
      else case commandParams s of
        None \<Rightarrow> None
      | Some p \<Rightarrow>
          (case map_of (heap s) p of
             Some (ParamArray es) \<Rightarrow>
               if nat (numParams s) \<le> length es \<and>
                  list_all (\<lambda>e. readString s e \<noteq> None) (take (nat (numParams s)) es)
               then Some (map (\<lambda>e. the (readString s e)) (take (nat (numParams s)) es))
               else None
           | _ \<Rightarrow> None))"

subsection \<open>Archives\<close>

definition loadArchive :: "env \<Rightarrow> int \<Rightarrow> debugger \<Rightarrow> bool \<times> debugger" where
  "loadArchive env index s =
     (if index < 1 \<or> index > 3 then (False, debugPrintf (InvalidCd index) s)
      else if \<not> rmLoadArchive env (calls s) index then (False, emit (RmLoadArchive index) s)
      else (True, emit (LoadSceneDataFile index) (emit (RmLoadArchive index) s)))"

text \<open>\<open>restoreArchive\<close>: the switch over the chapter (\<open>kChapter1\<close> to
  \<open>kChapter5\<close> are 1 to 5, \<open>kArchiveCd1\<close> to \<open>kArchiveCd3\<close> are 1 to 3), then the
  two loads; the result of the first is not looked at.\<close>

definition restoreArchive :: "debugger \<Rightarrow> debugger" where
  "restoreArchive s =
     (let c = progressChapter (game s);
          index = (if c = 2 \<or> c = 3 then 2 else if c = 4 \<or> c = 5 then 3 else (1::int))
      in emit (LoadSceneDataFile index) (emit (RmLoadArchive index) s))"

subsection \<open>Constants declared outside debug.cpp\<close>

text \<open>Modelled from the spec: the enumerators of \<open>FightType\<close> are declared in
  shared.h, which is not among the sources; the usage text of \<open>cmdFight\<close> gives the ids
  2001 to 2005 ("one of 5 fight variants"), taken in the order the switch names them.\<close>

definition kFightMilos :: int where "kFightMilos = 2001"
definition kFightAnna :: int where "kFightAnna = 2002"
definition kFightIvo :: int where "kFightIvo = 2003"
definition kFightSalko :: int where "kFightSalko = 2004"
definition kFightVesna :: int where "kFightVesna = 2005"

text \<open>Modelled from the spec: \<open>kChapter2\<close> and \<open>kObjectLocation3\<close> of shared.h and
  \<open>Common::KEYCODE_ESCAPE\<close> of common/keyboard.h, none among the sources: chapter 2,
  location 3, and the ASCII code of the escape key.\<close>

definition kChapter2 :: int where "kChapter2 = 2"
definition kObjectLocation3 :: int where "kObjectLocation3 = 3"
definition KEYCODE_ESCAPE :: int where "KEYCODE_ESCAPE = 27"

subsection \<open>Commands that show a file\<close>

text \<open>In every handler \<open>argc\<close> is the length of \<open>argv\<close>, and the result is the
  boolean the handler returns with the state it leaves.\<close>

definition cmdShowFrame :: "env \<Rightarrow> string list \<Rightarrow> debugger \<Rightarrow> bool \<times> debugger" where
  "cmdShowFrame env argv s =
     (let argc = int (length argv) in
      if argc = 3 \<or> argc = 4 then
        let filename = argv ! 1 @ ''.seq'';
            (ok, s1) = (if argc = 4 then loadArchive env (getNumber (argv ! 3)) s else (True, s))
        in if \<not> ok then (True, s1)
           else if \<not> rmHasFile env (calls s1) filename
           then (True, debugPrintf (CannotFindFile filename) s1)
           else if \<not> hasCommand s1
           then (False, cmdExit (copyCommand argv (setCommand CmdShowFrame s1)))
           else
             let finish = (\<lambda>t. let t1 = resetCommand t
                                in (True, if argc = 4 then restoreArchive t1 else t1))
             in if sequenceLoad env (calls s1) filename then
                  let s2 = emits [CursorShow False, ClearBg BackgroundOverlay] s1;
                      index = nat (getNumber (argv ! 2) mod 65536)
                  in if \<not> sequenceGetFrame env (calls s2) filename index
                     then (True, resetCommand (debugPrintf (InvalidFrameIndex (argv ! 2)) s2))
                     else finish (emits [Draw (AnimFrame filename index) BackgroundOverlay,
                                          AskForRedraw, RedrawScreen, DelayMillis 1000,
                                          CursorShow True] s2)
                else finish s1
      else (True, debugPrintf SyntaxShowFrame s))"

definition cmdShowBg :: "env \<Rightarrow> string list \<Rightarrow> debugger \<Rightarrow> bool \<times> debugger" where
  "cmdShowBg env argv s =
     (let argc = int (length argv) in
      if argc = 2 \<or> argc = 3 then
        let filename = argv ! 1;
            (ok, s1) = (if argc = 3 then loadArchive env (getNumber (argv ! 2)) s else (True, s))
        in if \<not> ok then (True, s1)
           else if \<not> rmHasFile env (calls s1) (filename @ ''.BG'')
           then (True, debugPrintf (CannotFindFile (filename @ ''.BG'')) s1)
           else if \<not> hasCommand s1
           then (False, cmdExit (copyCommand argv (setCommand CmdShowBg s1)))
           else
             let s2 = emit (ClearBg BackgroundC) s1;
                 s3 = (if loadBackground env (calls s2) filename
                       then emits [Draw (Background filename) BackgroundC, AskForRedraw] s2
                       else s2);
                 s4 = emit RedrawScreen s3;
                 s5 = (if argc = 3 then restoreArchive s4 else s4)
             in (True, resetCommand (emit (DelayMillis 1000) s5))
      else (True, debugPrintf SyntaxShowBg s))"

text \<open>Modelled from the spec: \<open>SequenceFrame::nextFrame\<close> (data/sequence.cpp is not
  among the sources) steps to the next frame and answers false at the last one, so the
  player started at frame 0 runs "until completion or right-click" over the frames
  \<open>0\<close> to \<open>count - 1\<close>. The list holds the frames still to show.\<close>

fun playFrames :: "env \<Rightarrow> string \<Rightarrow> nat list \<Rightarrow> debugger \<Rightarrow> debugger" where
  "playFrames env filename [] s = s"
| "playFrames env filename (i # rest) s =
     (let s1 = emits [ClearBg BackgroundA, Draw (SequenceFrame filename i) BackgroundA,
                      AskForRedraw, RedrawScreen] s;
          ev = pollEvent env (calls s1);
          s2 = emit PollEvent s1
      in if ev = Some RButtonUp then s2
         else playFrames env filename rest (emit (DelayMillis 175) s2))"

definition cmdPlaySeq :: "env \<Rightarrow> string list \<Rightarrow> debugger \<Rightarrow> bool \<times> debugger" where
  "cmdPlaySeq env argv s =
     (let argc = int (length argv) in
      if argc = 2 \<or> argc = 3 then
        let filename = argv ! 1 @ ''.seq'';
            (ok, s1) = (if argc = 3 then loadArchive env (getNumber (argv ! 2)) s else (True, s))
        in if \<not> ok then (True, s1)
           else if \<not> rmHasFile env (calls s1) filename
           then (True, debugPrintf (CannotFindFile filename) s1)
           else if \<not> hasCommand s1
           then (False, cmdExit (copyCommand argv (setCommand CmdPlaySeq s1)))
           else
             let finish = (\<lambda>t. let t1 = resetCommand t
                                in (True, if argc = 3 then restoreArchive t1 else t1))
             in if sequenceLoad env (calls s1) filename then
                  if sequenceCount env (calls s1) filename = 0 then (False, s1)
                  else
                    let s2 = emit (CursorShow False) s1;
                        s3 = playFrames env filename
                               [0..<sequenceCount env (calls s1) filename] s2
                    in finish (emit (CursorShow True) s3)
                else finish s1
      else (True, debugPrintf SyntaxPlaySeq s))"

text \<open>The loop of \<open>cmdPlaySbe\<close>: \<open>i\<close> is a \<open>uint16\<close> stepping by 25; it leaves on
  an empty event queue and on a right click. It need not end: \<open>None\<close> is the loop
  still running when the fuel is spent.\<close>

fun playSubtitles :: "env \<Rightarrow> string \<Rightarrow> nat \<Rightarrow> nat \<Rightarrow> debugger \<Rightarrow> debugger option" where
  "playSubtitles env filename 0 i s = None"
| "playSubtitles env filename (Suc fuel) i s =
     (if \<not> i < subtitleMaxTime env (calls s) filename then Some s
      else
        let s1 = emits [ClearBg BackgroundAll, Draw (Subtitle filename i) BackgroundOverlay,
                        AskForRedraw, RedrawScreen] s;
            ev = pollEvent env (calls s1);
            s2 = emit PollEvent s1
        in if ev = None \<or> ev = Some RButtonUp then Some s2
           else playSubtitles env filename fuel ((i + 25) mod 65536) (emit (DelayMillis 500) s2))"

definition cmdPlaySbe :: "env \<Rightarrow> nat \<Rightarrow> string list \<Rightarrow> debugger \<Rightarrow> (bool \<times> debugger) option" where
  "cmdPlaySbe env fuel argv s =
     (let argc = int (length argv) in
      if argc = 2 \<or> argc = 3 then
        let (ok, s1) = (if argc = 3 then loadArchive env (getNumber (argv ! 2)) s else (True, s));
            filename = argv ! 1 @ ''.sbe''
        in if \<not> ok then Some (True, s1)
           else if \<not> rmHasFile env (calls s1) filename
           then Some (True, debugPrintf (CannotFindFile filename) s1)
           else if \<not> hasCommand s1
           then Some (False, cmdExit (copyCommand argv (setCommand CmdPlaySbe s1)))
           else
             let finish = (\<lambda>t. (True, resetCommand (if argc = 3 then restoreArchive t else t)))
             in if subtitleLoad env (calls s1) filename then
                  (case playSubtitles env filename fuel 0 (emit (CursorShow False) s1) of
                     None \<Rightarrow> None
                   | Some s2 \<Rightarrow> Some (finish (emit (CursorShow True) s2)))
                else Some (finish s1)
      else Some (True, debugPrintf SyntaxPlaySbe s))"

definition cmdPlayNis :: "env \<Rightarrow> string list \<Rightarrow> debugger \<Rightarrow> bool \<times> debugger" where
  "cmdPlayNis env argv s =
     (let argc = int (length argv) in
      if argc = 2 \<or> argc = 3 then
        let name = argv ! 1;
            (ok, s1) = (if argc = 3 then loadArchive env (getNumber (argv ! 2)) s else (True, s))
        in if \<not> ok then (True, s1)
           else if CHR ''.'' \<in> set name \<and> \<not> rmHasFile env (calls s1) name
           then (True, debugPrintf (CannotFindFile name) s1)
           else if \<not> hasCommand s1
           then (False, cmdExit (copyCommand argv (setCommand CmdPlayNis s1)))
           else
             let s2 = s1\<lparr>numParams := 0\<rparr>;
                 s3 = (if CHR ''.'' \<in> set name then
                         if animationLoad env (calls s2) name
                         then emit (CursorShow True)
                                (invoke env (AnimationPlay name) (emit (CursorShow False) s2))
                         else s2
                       else invoke env (PlayAnimation (atoi name)) s2);
                 s4 = (if argc = 3 then restoreArchive s3 else s3)
             in (True, resetCommand s4)
      else (True, debugPrintf SyntaxPlayNis s))"

text \<open>\<open>SceneIndex\<close> is an enumeration without negative enumerators; the number is
  read here as the unsigned 32-bit value, so that the test against 2500 also refuses a
  negative argument.\<close>

definition cmdLoadScene :: "env \<Rightarrow> string list \<Rightarrow> debugger \<Rightarrow> bool \<times> debugger" where
  "cmdLoadScene env argv s =
     (let argc = int (length argv) in
      if argc = 2 \<or> argc = 3 then
        let cd = 1;
            index = getNumber (argv ! 1) mod 2 ^ 32;
            (ok, s1) = (if argc = 3 then loadArchive env (getNumber (argv ! 2)) s else (True, s))
        in if \<not> ok then (True, s1)
           else if index > 2500 then (True, debugPrintf InvalidSceneIndex s1)
           else if \<not> hasCommand s1
           then (False, cmdExit (copyCommand argv (setCommand CmdLoadScene s1)))
           else
             let s2 = emit (ClearBg BackgroundAll) s1
             in if \<not> scenesGet env (calls s2) index
                then (True, resetCommand (debugPrintf (CannotLoadScene index cd) s2))
                else
                  let s3 = emits [Draw (Scene index) BackgroundC, AskForRedraw, RedrawScreen,
                                  DelayMillis 500] s2;
                      s4 = (if argc = 3 then restoreArchive s3 else s3)
                  in (True, resetCommand s4)
      else (True, debugPrintf SyntaxLoadScene s))"

subsection \<open>The fight\<close>

text \<open>The executing branch of \<open>cmdFight\<close> up to the call of \<open>Fight::setup\<close>: the
  parameter count is zeroed ("make sure we are not called in a loop") and the screen
  cleared.\<close>

definition fightBegin :: "debugger \<Rightarrow> debugger" where
  "fightBegin s = emits [ClearBg BackgroundAll, AskForRedraw, RedrawScreen] (s\<lparr>numParams := 0\<rparr>)"

text \<open>... and from the pause after the fight to the end.\<close>

definition fightEnd :: "int \<Rightarrow> debugger \<Rightarrow> debugger" where
  "fightEnd lastScene s =
     (let s1 = restoreArchive (emit (DelayMillis 1000) s);
          s2 = emits [StopAllSound, ClearBg BackgroundAll, Draw (Scene lastScene) BackgroundC,
                      AskForRedraw, RedrawScreen] s1
      in resetCommand s2)"

definition cmdFight :: "env \<Rightarrow> string list \<Rightarrow> debugger \<Rightarrow> bool \<times> debugger" where
  "cmdFight env argv s =
     (if int (length argv) = 2 then
        let type = getNumber (argv ! 1) in
        if type = kFightMilos \<or> type = kFightAnna \<or> type = kFightIvo \<or> type = kFightSalko
           \<or> type = kFightVesna
        then
          let index = (if type = kFightMilos then 1 else if type = kFightAnna then 2 else 3);
              (ok, s1) = loadArchive env index s
          in if \<not> ok then (True, debugPrintf (FailedLoadArchive index) s1)
             else if \<not> hasCommand s1
             then (False, copyCommand argv (setCommand CmdFight s1))
             else
               let s2 = fightBegin s1;
                   lastScene = scene (game s2);
                   lost = engineResult env (calls s2) (FightSetup type) (game s2);
                   s3 = invoke env (FightSetup type) s2;
                   s4 = debugPrintf (if lost then LostFight else WonFight) s3
               in (True, fightEnd lastScene s4)
        else (True, debugPrintf SyntaxFight s)
      else (True, debugPrintf SyntaxFight s))"

subsection \<open>The beetle game\<close>

text \<open>A button release: the coordinates are stored and the beetle may be caught.\<close>

definition beetleClick :: "env \<Rightarrow> bool \<Rightarrow> debugger \<Rightarrow> bool \<times> debugger" where
  "beetleClick env playgame s =
     (let s1 = invoke env SetCoordinates s;
          caught = engineResult env (calls s1) CatchBeetle (game s1);
          s2 = invoke env CatchBeetle s1
      in (if caught then False else playgame, s2))"

text \<open>The inner loop drains the event queue; the outer one runs while \<open>playgame\<close>
  holds. Neither need end (the player may never leave): \<open>None\<close> is a loop still
  running when the fuel is spent.\<close>

fun beetleEvents :: "env \<Rightarrow> nat \<Rightarrow> bool \<Rightarrow> debugger \<Rightarrow> (bool \<times> debugger) option" where
  "beetleEvents env 0 playgame s = None"
| "beetleEvents env (Suc fuel) playgame s =
     (let ev = pollEvent env (calls s);
          s1 = emit PollEvent s
      in case ev of
           None \<Rightarrow> Some (playgame, s1)
         | Some e \<Rightarrow>
             let (pg, s2) =
               (case e of
                  KeyDown k \<Rightarrow> (if k = KEYCODE_ESCAPE then False else playgame, s1)
                | MouseMove \<Rightarrow> (playgame, emit (CursorSetStyle (mouseCursor env (calls s1))) s1)
                | LButtonUp \<Rightarrow> beetleClick env playgame s1
                | RButtonUp \<Rightarrow> beetleClick env playgame s1
                | OtherInput \<Rightarrow> (playgame, s1))
             in beetleEvents env fuel pg (emit (DelayMillis 10) s2))"

fun beetleGame :: "env \<Rightarrow> nat \<Rightarrow> debugger \<Rightarrow> debugger option" where
  "beetleGame env 0 s = None"
| "beetleGame env (Suc fuel) s =
     (let s1 = emits [AskForRedraw, RedrawScreen] (invoke env BeetleUpdate s)
      in case beetleEvents env fuel True s1 of
           None \<Rightarrow> None
         | Some (playgame, s2) \<Rightarrow> if playgame then beetleGame env fuel s2 else Some s2)"

text \<open>The executing branch of \<open>cmdBeetle\<close> before the game: the state is saved
  (the result carries scene, location and chapter), chapter and location are set, the
  beetle is made and loaded.\<close>

definition beetleBegin :: "env \<Rightarrow> debugger \<Rightarrow> (int \<times> int \<times> int) \<times> debugger" where
  "beetleBegin env s =
     (let s1 = emits [ClearBg BackgroundAll, AskForRedraw, RedrawScreen] s;
          previousScene = scene (game s1);
          previousLocation = beetleLocation (game s1);
          previousChapter = progressChapter (game s1);
          s2 = s1\<lparr>game := (game s1)\<lparr>progressChapter := kChapter2\<rparr>\<rparr>;
          s3 = s2\<lparr>game := (game s2)\<lparr>beetleLocation := kObjectLocation3\<rparr>\<rparr>;
          s4 = emits [AskForRedraw, RedrawScreen] s3;
          s5 = invoke env BeetleNew s4;
          s6 = (if \<not> beetleIsLoaded env (calls s5) then invoke env BeetleLoad s5 else s5)
      in ((previousScene, previousLocation, previousChapter), s6))"

text \<open>... and after it: clean-up, pause, the saved chapter and location written back,
  the archive restored, the saved scene drawn, the slot reset.\<close>

definition beetleEnd :: "env \<Rightarrow> int \<times> int \<times> int \<Rightarrow> debugger \<Rightarrow> debugger" where
  "beetleEnd env saved s =
     (let (previousScene, previousLocation, previousChapter) = saved;
          s1 = emit (DelayMillis 1000) (invoke env BeetleUnload s);
          s2 = s1\<lparr>game := (game s1)\<lparr>progressChapter := previousChapter\<rparr>\<rparr>;
          s3 = s2\<lparr>game := (game s2)\<lparr>beetleLocation := previousLocation\<rparr>\<rparr>;
          s4 = restoreArchive s3;
          s5 = emits [StopAllSound, ClearBg BackgroundAll, Draw (Scene previousScene) BackgroundC,
                      AskForRedraw, RedrawScreen] s4
      in resetCommand s5)"

definition cmdBeetle :: "env \<Rightarrow> nat \<Rightarrow> string list \<Rightarrow> debugger \<Rightarrow> (bool \<times> debugger) option" where
  "cmdBeetle env fuel argv s =
     (if int (length argv) = 1 then
        let (ok, s1) = loadArchive env 2 s
        in if \<not> ok then Some (True, debugPrintf FailedLoadArchive2 s1)
           else if \<not> hasCommand s1
           then Some (False, copyCommand argv (setCommand CmdBeetle s1))
           else
             let (saved, s2) = beetleBegin env s1
             in case beetleGame env fuel s2 of
                  None \<Rightarrow> None
                | Some s3 \<Rightarrow> Some (True, beetleEnd env saved s3)
      else Some (True, debugPrintf SyntaxBeetle s))"

subsection \<open>Game commands\<close>

definition cmdTimeDelta :: "string list \<Rightarrow> debugger \<Rightarrow> bool \<times> debugger" where
  "cmdTimeDelta argv s =
     (if int (length argv) = 2 then
        let delta = getNumber (argv ! 1) in
        if delta \<le> 0 \<or> delta > 500 then (True, debugPrintf SyntaxDelta s)
        else (True, s\<lparr>game := (game s)\<lparr>timeDelta := nat delta\<rparr>\<rparr>)
      else (True, debugPrintf SyntaxDelta s))"

definition cmdSwitchChapter :: "env \<Rightarrow> string list \<Rightarrow> debugger \<Rightarrow> bool \<times> debugger" where
  "cmdSwitchChapter env argv s =
     (if int (length argv) = 2 then
        let id = getNumber (argv ! 1) in
        if id \<le> 1 \<or> id > 6 then (True, debugPrintf SyntaxChapter s)
        else if \<not> hasCommand s
        then (False, copyCommand argv (setCommand CmdSwitchChapter s))
        else
          let s1 = s\<lparr>game := (game s)\<lparr>progressChapter := id - 1\<rparr>\<rparr>;
              s2 = invoke env SwitchChapter s1
          in (True, resetCommand s2)
      else (True, debugPrintf SyntaxChapter s))"

subsection \<open>Calling the stored command\<close>

text \<open>The call of a functor: the handler it wraps.\<close>

definition callHandler ::
  "env \<Rightarrow> nat \<Rightarrow> handler \<Rightarrow> string list \<Rightarrow> debugger \<Rightarrow> (bool \<times> debugger) option" where
  "callHandler env fuel h argv s =
     (case h of
        CmdShowFrame \<Rightarrow> Some (cmdShowFrame env argv s)
      | CmdShowBg \<Rightarrow> Some (cmdShowBg env argv s)
      | CmdPlaySeq \<Rightarrow> Some (cmdPlaySeq env argv s)
      | CmdPlaySbe \<Rightarrow> cmdPlaySbe env fuel argv s
      | CmdPlayNis \<Rightarrow> Some (cmdPlayNis env argv s)
      | CmdLoadScene \<Rightarrow> Some (cmdLoadScene env argv s)
      | CmdFight \<Rightarrow> Some (cmdFight env argv s)
      | CmdBeetle \<Rightarrow> cmdBeetle env fuel argv s
      | CmdSwitchChapter \<Rightarrow> Some (cmdSwitchChapter env argv s))"

text \<open>\<open>callCommand\<close>: nothing when \<open>_command\<close> is null; else the functor is called
  with \<open>_numParams\<close> and \<open>_commandParams\<close>, and its result dropped.\<close>

definition callCommand :: "env \<Rightarrow> nat \<Rightarrow> debugger \<Rightarrow> debugger option" where
  "callCommand env fuel s =
     (case command s of
        None \<Rightarrow> Some s
      | Some c \<Rightarrow>
          (case (map_of (heap s) c, readParams s) of
             (Some (Debuglet h), Some argv) \<Rightarrow> map_option snd (callHandler env fuel h argv s)
           | _ \<Rightarrow> Some (s\<lparr>faults := faults s @ [InvalidRead]\<rparr>)))"

text \<open>The constructor: the members are null and zero, then \<open>resetCommand\<close>.\<close>

definition newDebugger :: "game \<Rightarrow> debugger" where
  "newDebugger g =
     resetCommand \<lparr>command = None, numParams = 0, commandParams = None, heap = [],
                   nextAddr = 0, faults = [], game = g, calls = []\<rparr>"

section \<open>Notions of the statements\<close>

text \<open>The calls a run from \<open>s\<close> to \<open>t\<close> has added to the log.\<close>

definition newCalls :: "debugger \<Rightarrow> debugger \<Rightarrow> call list" where
  "newCalls s t = drop (length (calls s)) (calls t)"

text \<open>The calls that mount an archive with its scene data, or leave the console:
  no drawing, no cursor, no sound, no timer, no game logic.\<close>

fun isMountOrExit :: "call \<Rightarrow> bool" where
  "isMountOrExit (RmLoadArchive i) = True"
| "isMountOrExit (LoadSceneDataFile i) = True"
| "isMountOrExit CmdExit = True"
| "isMountOrExit c = False"

text \<open>... or print a text on the console.\<close>

fun isQuiet :: "call \<Rightarrow> bool" where
  "isQuiet (DebugPrintf m) = True"
| "isQuiet c = isMountOrExit c"



text \<open>The mapping from a chapter to its default volume, following the words of the
  specification: chapter 1 to volume 1, chapters 2 and 3 to volume 2, chapters 4 and 5
  to volume 3, any other integer to volume 1. It is compared below with the switch of
  \<open>restoreArchive\<close>.\<close>

definition currentDefaultForChapter :: "int \<Rightarrow> int" where
  "currentDefaultForChapter c =
     (if c = 1 then 1
      else if c = 2 \<or> c = 3 then 2
      else if c = 4 \<or> c = 5 then 3
      else 1)"

subsection \<open>A concrete engine for the examples\<close>

text \<open>
  Every archive opens and every file exists and loads; sequences are empty; the first
  event polled is the escape key, after which the queue is empty; the fight is lost and
  moves the player to scene 9; catching the beetle succeeds and puts it at location 1;
  the chapter switch advances the chapter.
\<close>

definition env0 :: env where
  "env0 =
     \<lparr>rmLoadArchive = (\<lambda>tr i. True),
      rmHasFile = (\<lambda>tr f. True),
      sequenceLoad = (\<lambda>tr f. True),
      sequenceCount = (\<lambda>tr f. 0),
      sequenceGetFrame = (\<lambda>tr f i. True),
      loadBackground = (\<lambda>tr f. True),
      subtitleLoad = (\<lambda>tr f. True),
      subtitleMaxTime = (\<lambda>tr f. 50),
      animationLoad = (\<lambda>tr f. True),
      scenesGet = (\<lambda>tr i. True),
      pollEvent = (\<lambda>tr. if PollEvent \<in> set tr then None else Some (KeyDown KEYCODE_ESCAPE)),
      mouseCursor = (\<lambda>tr. CursorNormal),
      beetleIsLoaded = (\<lambda>tr. False),
      engineResult = (\<lambda>tr c g. True),
      engineEffect = (\<lambda>tr c g.
        case c of
          FightSetup i \<Rightarrow> g\<lparr>scene := 9\<rparr>
        | CatchBeetle \<Rightarrow> g\<lparr>beetleLocation := 1\<rparr>
        | SwitchChapter \<Rightarrow> g\<lparr>progressChapter := progressChapter g + 1\<rparr>
        | _ \<Rightarrow> g)\<rparr>"

text \<open>The same engine with a mouse click as its first event.\<close>

definition env1 :: env where
  "env1 = env0\<lparr>pollEvent := (\<lambda>tr. if PollEvent \<in> set tr then None else Some LButtonUp)\<rparr>"

text \<open>The game in chapter 4, at scene 5, the beetle at location 7.\<close>

definition game0 :: game where
  "game0 = \<lparr>progressChapter = 4, scene = 5, beetleLocation = 7, timeDelta = 3\<rparr>"

text \<open>The states after a first dispatch of \<open>fight 2002\<close>, \<open>playseq x\<close>,
  \<open>beetle\<close> and \<open>chapter 3\<close> in a new console.\<close>

definition pendingFight :: debugger where
  "pendingFight = snd (cmdFight env0 [''fight'', ''2002''] (newDebugger game0))"

definition pendingPlaySeq :: debugger where
  "pendingPlaySeq = snd (cmdPlaySeq env0 [''playseq'', ''x''] (newDebugger game0))"

definition pendingBeetle :: debugger where
  "pendingBeetle = snd (the (cmdBeetle env0 0 [''beetle''] (newDebugger game0)))"

definition pendingChapter :: debugger where
  "pendingChapter = snd (cmdSwitchChapter env0 [''chapter'', ''3''] (newDebugger game0))"



text \<open>The states the beetle game leaves when \<open>beetle\<close> is pending and the player
  presses escape, or clicks and catches the beetle.\<close>

definition afterEscape :: debugger where
  "afterEscape = snd (the (cmdBeetle env0 3 [''beetle''] pendingBeetle))"

definition afterCatch :: debugger where
  "afterCatch = snd (the (cmdBeetle env1 3 [''beetle''] pendingBeetle))"

section \<open>Auxiliary notions of the proofs\<close>


text \<open>The state of \<open>copyCommand\<close> before its loop.\<close>

definition allocated :: "handler \<Rightarrow> string list \<Rightarrow> debugger \<Rightarrow> debugger" where
  "allocated h argv s =
     (snd (malloc (ParamArray (replicate (length argv) None)) (setCommand h s)))
       \<lparr>commandParams := Some (Suc (nextAddr s)), numParams := int (length argv)\<rparr>"

definition slotSame :: "debugger \<Rightarrow> debugger \<Rightarrow> bool" where
  "slotSame s t =
     (command t = command s \<and> commandParams t = commandParams s \<and>
      numParams t = numParams s \<and> heap t = heap s \<and> nextAddr t = nextAddr s \<and>
      faults t = faults s)"


definition untouched :: "debugger \<Rightarrow> debugger \<Rightarrow> bool" where
  "untouched s t =
     (slotSame s t \<and> game t = game s \<and> list_all isQuiet (newCalls s t) \<and>
      CmdExit \<notin> set (newCalls s t) \<and> take (length (calls s)) (calls t) = calls s)"


text \<open>The state after the optional \<open>loadArchive\<close> a handler starts with, and a
  state later in the same run.\<close>

definition pre :: "bool \<Rightarrow> debugger \<Rightarrow> debugger \<Rightarrow> bool" where
  "pre ok s t =
     (slotSame s t \<and> game t = game s \<and>
      (\<exists>cs. calls t = calls s @ cs \<and> list_all (if ok then isMountOrExit else isQuiet) cs \<and>
            CmdExit \<notin> set cs))"

definition extends :: "debugger \<Rightarrow> debugger \<Rightarrow> bool" where
  "extends s t = (nextAddr t = nextAddr s \<and> (\<exists>cs. calls t = calls s @ cs))"


section \<open>Lemmas\<close>

subsection \<open>What the small steps change\<close>

lemma free_fields [simp]:
  "command (free p s) = command s" "numParams (free p s) = numParams s"
  "commandParams (free p s) = commandParams s" "game (free p s) = game s"
  "calls (free p s) = calls s" "nextAddr (free p s) = nextAddr s"
  by (auto simp: free_def split: option.splits)

lemma free_None [simp]: "free None s = s"
  by (simp add: free_def)

lemma free_live:
  "map_of (heap s) a = Some b \<Longrightarrow> free (Some a) s = s\<lparr>heap := AList.delete a (heap s)\<rparr>"
  by (simp add: free_def)

lemma freeParam_fields [simp]:
  "command (freeParam p i s) = command s" "numParams (freeParam p i s) = numParams s"
  "commandParams (freeParam p i s) = commandParams s" "game (freeParam p i s) = game s"
  "calls (freeParam p i s) = calls s" "nextAddr (freeParam p i s) = nextAddr s"
  by (auto simp: freeParam_def split: option.splits block.splits)

lemma fold_freeParam_fields [simp]:
  "command (fold (freeParam p) js s) = command s"
  "numParams (fold (freeParam p) js s) = numParams s"
  "commandParams (fold (freeParam p) js s) = commandParams s"
  "game (fold (freeParam p) js s) = game s"
  "calls (fold (freeParam p) js s) = calls s"
  "nextAddr (fold (freeParam p) js s) = nextAddr s"
  by (induction js arbitrary: s) simp_all

lemma resetCommand_fields [simp]:
  "game (resetCommand s) = game s" "calls (resetCommand s) = calls s"
  "nextAddr (resetCommand s) = nextAddr s"
  by (simp_all add: resetCommand_def Let_def split: option.splits)

lemma resetCommand_cleared:
  "command (resetCommand s) = None" "commandParams (resetCommand s) = None"
  "numParams (resetCommand s) = 0"
  by (simp_all add: resetCommand_def Let_def split: option.splits)

lemma emit_fields [simp]:
  "command (emit c s) = command s" "numParams (emit c s) = numParams s"
  "commandParams (emit c s) = commandParams s" "game (emit c s) = game s"
  "calls (emit c s) = calls s @ [c]" "nextAddr (emit c s) = nextAddr s"
  "heap (emit c s) = heap s" "faults (emit c s) = faults s"
  by (simp_all add: emit_def)

lemma emits_fields [simp]:
  "command (emits cs s) = command s" "numParams (emits cs s) = numParams s"
  "commandParams (emits cs s) = commandParams s" "game (emits cs s) = game s"
  "calls (emits cs s) = calls s @ cs" "nextAddr (emits cs s) = nextAddr s"
  "heap (emits cs s) = heap s" "faults (emits cs s) = faults s"
  by (simp_all add: emits_def)

lemma invoke_fields [simp]:
  "command (invoke env c s) = command s" "numParams (invoke env c s) = numParams s"
  "commandParams (invoke env c s) = commandParams s"
  "game (invoke env c s) = engineEffect env (calls s) c (game s)"
  "calls (invoke env c s) = calls s @ [c]" "nextAddr (invoke env c s) = nextAddr s"
  "heap (invoke env c s) = heap s" "faults (invoke env c s) = faults s"
  by (simp_all add: invoke_def)

lemma debugPrintf_fields [simp]:
  "command (debugPrintf m s) = command s" "numParams (debugPrintf m s) = numParams s"
  "commandParams (debugPrintf m s) = commandParams s" "game (debugPrintf m s) = game s"
  "calls (debugPrintf m s) = calls s @ [DebugPrintf m]"
  "nextAddr (debugPrintf m s) = nextAddr s"
  "heap (debugPrintf m s) = heap s" "faults (debugPrintf m s) = faults s"
  by (simp_all add: debugPrintf_def)

lemma cmdExit_fields [simp]:
  "command (cmdExit s) = command s" "numParams (cmdExit s) = numParams s"
  "commandParams (cmdExit s) = commandParams s" "game (cmdExit s) = game s"
  "calls (cmdExit s) = calls s @ [CmdExit]" "nextAddr (cmdExit s) = nextAddr s"
  "heap (cmdExit s) = heap s" "faults (cmdExit s) = faults s"
  by (simp_all add: cmdExit_def)

lemma restoreArchive_fields [simp]:
  "command (restoreArchive s) = command s" "numParams (restoreArchive s) = numParams s"
  "commandParams (restoreArchive s) = commandParams s" "game (restoreArchive s) = game s"
  "nextAddr (restoreArchive s) = nextAddr s"
  "heap (restoreArchive s) = heap s" "faults (restoreArchive s) = faults s"
  by (simp_all add: restoreArchive_def Let_def)

lemma restoreArchive_calls:
  "calls (restoreArchive s) =
     calls s @ [RmLoadArchive (currentDefaultForChapter (progressChapter (game s))),
                LoadSceneDataFile (currentDefaultForChapter (progressChapter (game s)))]"
  by (simp add: restoreArchive_def currentDefaultForChapter_def Let_def)

lemma loadArchive_fields [simp]:
  "command (snd (loadArchive env i s)) = command s"
  "numParams (snd (loadArchive env i s)) = numParams s"
  "commandParams (snd (loadArchive env i s)) = commandParams s"
  "game (snd (loadArchive env i s)) = game s"
  "nextAddr (snd (loadArchive env i s)) = nextAddr s"
  "heap (snd (loadArchive env i s)) = heap s" "faults (snd (loadArchive env i s)) = faults s"
  by (simp_all add: loadArchive_def)



lemma copyParam_fields [simp]:
  "command (copyParam argv i s) = command s" "numParams (copyParam argv i s) = numParams s"
  "commandParams (copyParam argv i s) = commandParams s" "game (copyParam argv i s) = game s"
  "calls (copyParam argv i s) = calls s"
  by (auto simp: copyParam_def malloc_def writeParam_def split: option.splits block.splits)

lemma fold_copyParam_fields [simp]:
  "command (fold (copyParam argv) js s) = command s"
  "numParams (fold (copyParam argv) js s) = numParams s"
  "commandParams (fold (copyParam argv) js s) = commandParams s"
  "game (fold (copyParam argv) js s) = game s"
  "calls (fold (copyParam argv) js s) = calls s"
  by (induction js arbitrary: s) simp_all

lemma store_fields_any:
  "command (copyCommand argv (setCommand h s)) = Some (nextAddr s)"
  "commandParams (copyCommand argv (setCommand h s)) = Some (Suc (nextAddr s))"
  "numParams (copyCommand argv (setCommand h s)) = int (length argv)"
  "game (copyCommand argv (setCommand h s)) = game s"
  "calls (copyCommand argv (setCommand h s)) = calls s @ [CmdExit]"
  by (simp_all add: copyCommand_def setCommand_def malloc_def Let_def)

lemma hasCommand_simps [simp]:
  "hasCommand (emit c s) = hasCommand s" "hasCommand (emits cs s) = hasCommand s"
  "hasCommand (debugPrintf m s) = hasCommand s"
  "hasCommand (snd (loadArchive env i s)) = hasCommand s"
  "hasCommand (restoreArchive s) = hasCommand s" "hasCommand (invoke env c s) = hasCommand s"
  "hasCommand (cmdExit s) = hasCommand s"
  by (simp_all add: hasCommand_def)

subsection \<open>States that agree on the heap\<close>






lemma heapOk_delete: "heapOk s \<Longrightarrow> heapOk (s\<lparr>heap := AList.delete a (heap s)\<rparr>)"
  by (auto simp: heapOk_def list_all_iff AList.delete_eq)

lemma isString_delete:
  "isString s e \<Longrightarrow> e \<noteq> Some a \<Longrightarrow> isString (s\<lparr>heap := AList.delete a (heap s)\<rparr>) e"
  by (auto simp: isString_def delete_conv' split: option.splits block.splits)

subsection \<open>The loop of resetCommand\<close>

lemma fold_freeParam:
  assumes "map_of (heap s) p = Some (ParamArray es)"
    and "\<forall>i\<in>set js. i < length es \<and> isString s (es ! i)"
    and "distinct (map ((!) es) js)"
  shows "faults (fold (freeParam p) js s) = faults s \<and>
         map_of (heap (fold (freeParam p) js s)) p = Some (ParamArray es) \<and>
         (heapOk s \<longrightarrow> heapOk (fold (freeParam p) js s))"
  using assms
proof (induction js arbitrary: s)
  case Nil
  then show ?case by simp
next
  case (Cons i js)
  from Cons.prems obtain a t where a: "es ! i = Some a" "map_of (heap s) a = Some (CString t)"
    by (auto simp: isString_def split: option.splits block.splits)
  let ?s' = "s\<lparr>heap := AList.delete a (heap s)\<rparr>"
  have step: "freeParam p i s = ?s'"
    using Cons.prems a by (simp add: freeParam_def free_live)
  have ap: "a \<noteq> p" using a Cons.prems(1) by auto
  have 1: "map_of (heap ?s') p = Some (ParamArray es)"
    using Cons.prems(1) ap by (simp add: delete_conv')
  have 2: "\<forall>j\<in>set js. j < length es \<and> isString ?s' (es ! j)"
  proof
    fix j assume j: "j \<in> set js"
    then have "es ! j \<in> set (map ((!) es) js)" by simp
    then have "es ! j \<noteq> es ! i" using Cons.prems(3) by auto
    then show "j < length es \<and> isString ?s' (es ! j)"
      using Cons.prems(2) j a isString_delete [of s "es ! j" a] by auto
  qed
  have 3: "distinct (map ((!) es) js)" using Cons.prems(3) by simp
  from Cons.IH [OF 1 2 3] show ?case
    by (simp add: step heapOk_delete)
qed

lemma resetCommand_idem: "resetCommand (resetCommand s) = resetCommand s"
proof -
  have "\<And>t. command t = None \<Longrightarrow> commandParams t = None \<Longrightarrow> numParams t = 0 \<Longrightarrow>
    resetCommand t = t"
    by (simp add: resetCommand_def Let_def)
  then show ?thesis by (simp add: resetCommand_cleared)
qed

lemma resetCommand_no_fault:
  assumes "slotRep s"
  shows "faults (resetCommand s) = faults s \<and> heapOk (resetCommand s)"
proof -
  let ?s1 = "(free (command s) s)\<lparr>command := None\<rparr>"
  have ok: "heapOk s" using assms by (simp add: slotRep_def)
  have f1: "faults ?s1 = faults s \<and> heapOk ?s1 \<and>
            (\<forall>a b. (\<forall>h. b \<noteq> Debuglet h) \<longrightarrow> map_of (heap s) a = Some b \<longrightarrow>
               map_of (heap ?s1) a = Some b)"
  proof (cases "command s")
    case None
    then show ?thesis using ok by (simp add: heapOk_def)
  next
    case (Some c)
    then obtain h where "map_of (heap s) c = Some (Debuglet h)"
      using assms by (auto simp: slotRep_def split: option.splits block.splits)
    then show ?thesis using Some ok heapOk_delete [OF ok, of c]
      by (auto simp: free_live heapOk_def delete_conv')
  qed
  show ?thesis
  proof (cases "commandParams s")
    case None
    then show ?thesis using f1 by (simp add: resetCommand_def Let_def heapOk_def)
  next
    case (Some p)
    then obtain es where es: "map_of (heap s) p = Some (ParamArray es)"
      "numParams s = int (length es)" "list_all (isString s) es" "distinct es"
      using assms by (auto simp: slotRep_def split: option.splits block.splits)
    have p1: "map_of (heap ?s1) p = Some (ParamArray es)" using f1 es(1) by simp
    have str: "\<forall>i\<in>set [0..<length es]. i < length es \<and> isString ?s1 (es ! i)"
    proof
      fix i assume "i \<in> set [0..<length es]"
      then have i: "i < length es" by simp
      then have "isString s (es ! i)" using es(3) by (simp add: list_all_length)
      then obtain a t where a: "es ! i = Some a" "map_of (heap s) a = Some (CString t)"
        by (auto simp: isString_def split: option.splits block.splits)
      then have "map_of (heap ?s1) a = Some (CString t)" using f1 by blast
      then have "isString ?s1 (es ! i)" using a(1) by (simp add: isString_def)
      then show "i < length es \<and> isString ?s1 (es ! i)" using i by simp
    qed
    have d: "distinct (map ((!) es) [0..<length es])" using es(4) by (simp add: map_nth)
    let ?s2 = "fold (freeParam p) [0..<length es] ?s1"
    from fold_freeParam [OF p1 str d] f1
    have s2: "faults ?s2 = faults s" "map_of (heap ?s2) p = Some (ParamArray es)" "heapOk ?s2"
      by simp_all
    have "resetCommand s = (free (Some p) ?s2)\<lparr>commandParams := None, numParams := 0\<rparr>"
      using Some es(2) by (simp add: resetCommand_def Let_def)
    then show ?thesis using s2 heapOk_delete [OF s2(3), of p]
      by (simp add: free_live heapOk_def)
  qed
qed

subsection \<open>The loop of copyCommand\<close>




lemma allocated_fields [simp]:
  "command (allocated h argv s) = Some (nextAddr s)"
  "numParams (allocated h argv s) = int (length argv)"
  "game (allocated h argv s) = game s" "calls (allocated h argv s) = calls s"
  "faults (allocated h argv s) = faults s"
  "heap (allocated h argv s) =
     (Suc (nextAddr s), ParamArray (replicate (length argv) None)) #
     (nextAddr s, Debuglet h) # heap s"
  by (simp_all add: allocated_def setCommand_def malloc_def)





subsection \<open>The three ways a handler ends\<close>

lemma isMountOrExit_isQuiet: "isMountOrExit c \<Longrightarrow> isQuiet c"
  by (cases c) simp_all


lemma pre_refl: "pre True s s"
  by (simp add: pre_def slotSame_def)




lemma pre_untouched:
  "pre ok s t \<Longrightarrow> untouched s t" "pre ok s t \<Longrightarrow> untouched s (debugPrintf m t)"
  by (auto simp: pre_def untouched_def slotSame_def newCalls_def list_all_iff
      intro: isMountOrExit_isQuiet split: if_splits)

lemma untouched_self [simp]: "untouched s s" "untouched s (debugPrintf m s)"
  by (rule pre_untouched [OF pre_refl])+



lemma extends_refl [simp]: "extends s s"
  by (simp add: extends_def)

lemma extends_step:
  "extends s t \<Longrightarrow> extends s (emit c t)"
  "extends s t \<Longrightarrow> extends s (emits cs t)"
  "extends s t \<Longrightarrow> extends s (invoke env c t)"
  "extends s t \<Longrightarrow> extends s (debugPrintf m t)"
  "extends s t \<Longrightarrow> extends s (restoreArchive t)"
  "extends s t \<Longrightarrow> extends s (resetCommand t)"
  "extends s t \<Longrightarrow> extends s (t\<lparr>numParams := n\<rparr>)"
  "extends s t \<Longrightarrow> extends s (t\<lparr>game := g\<rparr>)"
  by (auto simp: extends_def restoreArchive_calls)




lemma extends_beetleClick: "extends s t \<Longrightarrow> extends s (snd (beetleClick env pg t))"
  by (simp add: beetleClick_def Let_def extends_step)

lemma extends_beetleEvents:
  "beetleEvents env fuel pg t = Some (pg', u) \<Longrightarrow> extends s t \<Longrightarrow> extends s u"
proof (induction fuel arbitrary: pg t)
  case 0
  then show ?case by simp
next
  case (Suc fuel)
  then show ?case
    by (auto simp: Let_def split_def extends_step extends_beetleClick
        split: option.splits input.splits)
qed

lemma extends_beetleGame:
  "beetleGame env fuel t = Some u \<Longrightarrow> extends s t \<Longrightarrow> extends s u"
proof (induction fuel arbitrary: t)
  case 0
  then show ?case by simp
next
  case (Suc fuel)
  then show ?case
    by (auto simp: Let_def extends_step split: option.splits if_splits
        dest!: extends_beetleEvents [where s = s])
qed

subsection \<open>Every handler ends in one of the three ways\<close>











subsection \<open>The beetle loops\<close>

lemma calls_beetleGame:
  assumes "beetleGame env fuel t = Some u"
  shows "\<exists>cs. calls u = calls t @ cs"
  using extends_beetleGame [OF assms, of t] by (simp add: extends_def)

lemma beetleEvents_mono:
  "beetleEvents env fuel pg s = Some x \<Longrightarrow> fuel \<le> fuel' \<Longrightarrow> beetleEvents env fuel' pg s = Some x"
proof (induction fuel arbitrary: fuel' pg s)
  case 0
  then show ?case by simp
next
  case (Suc fuel)
  then obtain m where m: "fuel' = Suc m" "fuel \<le> m" by (cases fuel') auto
  show ?case using Suc.prems(1) Suc.IH [OF _ m(2)]
    by (auto simp: m(1) Let_def split_def split: option.splits)
qed

lemma beetleGame_mono:
  "beetleGame env fuel s = Some x \<Longrightarrow> fuel \<le> fuel' \<Longrightarrow> beetleGame env fuel' s = Some x"
proof (induction fuel arbitrary: fuel' s)
  case 0
  then show ?case by simp
next
  case (Suc fuel)
  then obtain m where m: "fuel' = Suc m" "fuel \<le> m" by (cases fuel') auto
  show ?case using Suc.prems(1) Suc.IH [OF _ m(2)] beetleEvents_mono [OF _ m(2)]
    by (auto simp: m(1) Let_def split: option.splits if_splits)
qed

lemma cmdBeetle_mono:
  "cmdBeetle env fuel argv s = Some x \<Longrightarrow> fuel \<le> fuel' \<Longrightarrow> cmdBeetle env fuel' argv s = Some x"
  by (auto simp: cmdBeetle_def Let_def split_def split: option.splits if_splits
      dest: beetleGame_mono)

subsection \<open>The first dispatch\<close>



subsection \<open>The beetle game ends, and what it leaves\<close>

lemma beetle_escape_returns:
  assumes "hasCommand s" "rmLoadArchive env (calls s) 2"
    "\<forall>tr. pollEvent env (calls s @ tr) =
        (if PollEvent \<in> set tr then None else Some (KeyDown KEYCODE_ESCAPE))"
  shows "\<exists>t. cmdBeetle env 3 [n] s = Some (True, t)"
proof -
  have p: "\<And>tr. pollEvent env (calls s @ tr) =
        (if PollEvent \<in> set tr then None else Some (KeyDown KEYCODE_ESCAPE))"
    using assms(3) by blast
  have la: "loadArchive env 2 s = (True, emits [RmLoadArchive 2, LoadSceneDataFile 2] s)"
    using assms(2) by (simp add: loadArchive_def emit_def emits_def)
  show ?thesis
    using assms(1)
    by (simp add: cmdBeetle_def la beetleBegin_def Let_def eval_nat_numeral p hasCommand_def)
qed

lemma beetle_catch_returns:
  assumes "hasCommand s" "rmLoadArchive env (calls s) 2"
    "\<forall>tr. pollEvent env (calls s @ tr) =
        (if PollEvent \<in> set tr then None else Some LButtonUp)"
    "\<forall>tr g. engineResult env tr CatchBeetle g"
  shows "\<exists>t. cmdBeetle env 3 [n] s = Some (True, t)"
proof -
  have p: "\<And>tr. pollEvent env (calls s @ tr) =
        (if PollEvent \<in> set tr then None else Some LButtonUp)"
    using assms(3) by blast
  have c: "\<And>tr g. engineResult env tr CatchBeetle g" using assms(4) by blast
  have la: "loadArchive env 2 s = (True, emits [RmLoadArchive 2, LoadSceneDataFile 2] s)"
    using assms(2) by (simp add: loadArchive_def emit_def emits_def)
  show ?thesis
    using assms(1)
    by (simp add: cmdBeetle_def la beetleBegin_def beetleClick_def Let_def eval_nat_numeral
        p c hasCommand_def)
qed

lemma beetle_restored:
  assumes "hasCommand s" "rmLoadArchive env (calls s) 2"
    "cmdBeetle env fuel [n] s = Some (r, t)"
  shows "r \<and> \<not> hasCommand t \<and>
     progressChapter (game t) = progressChapter (game s) \<and>
     beetleLocation (game t) = beetleLocation (game s) \<and>
     (\<exists>mid. calls t =
        calls s @ [RmLoadArchive 2, LoadSceneDataFile 2] @ mid @
        [DelayMillis 1000,
         RmLoadArchive (currentDefaultForChapter (progressChapter (game s))),
         LoadSceneDataFile (currentDefaultForChapter (progressChapter (game s))),
         StopAllSound, ClearBg BackgroundAll, Draw (Scene (scene (game s))) BackgroundC,
         AskForRedraw, RedrawScreen]) \<and>
     (\<forall>fuel'. fuel \<le> fuel' \<longrightarrow> cmdBeetle env fuel' [n] s = Some (r, t))"
proof -
  let ?s1 = "emits [RmLoadArchive 2, LoadSceneDataFile 2] s"
  have la: "loadArchive env 2 s = (True, ?s1)"
    using assms(2) by (simp add: loadArchive_def emit_def emits_def)
  obtain saved s2 where b: "beetleBegin env ?s1 = (saved, s2)" by (cases "beetleBegin env ?s1")
  have saved: "saved = (scene (game s), beetleLocation (game s), progressChapter (game s))"
    using b by (auto simp: beetleBegin_def Let_def)
  have "\<exists>cs. calls s2 = calls ?s1 @ cs"
    using b by (auto simp: beetleBegin_def Let_def)
  then obtain cs2 where cs2: "calls s2 = calls s @ [RmLoadArchive 2, LoadSceneDataFile 2] @ cs2"
    by auto
  from assms(1,3) obtain s3 where g: "beetleGame env fuel s2 = Some s3"
    and t: "t = beetleEnd env saved s3" and r: "r"
    by (auto simp: cmdBeetle_def la b hasCommand_def split: option.splits)
  from calls_beetleGame [OF g] obtain cs3 where cs3: "calls s3 = calls s2 @ cs3" by blast
  have "calls t = calls s @ [RmLoadArchive 2, LoadSceneDataFile 2] @ (cs2 @ cs3 @ [BeetleUnload]) @
        [DelayMillis 1000,
         RmLoadArchive (currentDefaultForChapter (progressChapter (game s))),
         LoadSceneDataFile (currentDefaultForChapter (progressChapter (game s))),
         StopAllSound, ClearBg BackgroundAll, Draw (Scene (scene (game s))) BackgroundC,
         AskForRedraw, RedrawScreen]"
    by (simp add: t saved beetleEnd_def Let_def restoreArchive_calls cs3 cs2)
  moreover have "progressChapter (game t) = progressChapter (game s)"
    "beetleLocation (game t) = beetleLocation (game s)" "\<not> hasCommand t"
    by (simp_all add: t saved beetleEnd_def Let_def hasCommand_def resetCommand_cleared)
  moreover have "\<forall>fuel'. fuel \<le> fuel' \<longrightarrow> cmdBeetle env fuel' [n] s = Some (r, t)"
    using cmdBeetle_mono [OF assms(3)] by blast
  ultimately show ?thesis using r by blast
qed

subsection \<open>The examples, evaluated\<close>

lemma getNumber_examples:
  "getNumber ''0'' = 0" "getNumber ''501'' = 501" "getNumber ''-5'' = - 5"
  "getNumber ''250'' = 250" "getNumber ''1'' = 1" "getNumber ''7'' = 7" "getNumber ''3'' = 3"
  "getNumber ''2002'' = 2002" "getNumber ''0x1F'' = 31" "getNumber ''010'' = 8"
  "getNumber '' 12ab'' = 12"
  by (simp_all add: getNumber_def strtol_def toInt_def isSpace_def digitOf_def)

lemma newDebugger_eq:
  "newDebugger g = \<lparr>command = None, numParams = 0, commandParams = None, heap = [],
     nextAddr = 0, faults = [], game = g, calls = []\<rparr>"
  by (simp add: newDebugger_def resetCommand_def)

lemma pendingFight_eq:
  "pendingFight =
     \<lparr>command = Some 0, numParams = 2, commandParams = Some 1,
      heap = [(3, CString ''2002''), (2, CString ''fight''),
              (1, ParamArray [Some 2, Some 3]), (0, Debuglet CmdFight)],
      nextAddr = 4, faults = [], game = game0,
      calls = [RmLoadArchive 2, LoadSceneDataFile 2, CmdExit]\<rparr>"
  by (simp add: pendingFight_def cmdFight_def newDebugger_eq getNumber_examples
      kFightMilos_def kFightAnna_def kFightIvo_def kFightSalko_def kFightVesna_def
      loadArchive_def env0_def emit_def hasCommand_def setCommand_def copyCommand_def
      malloc_def copyParam_def writeParam_def cmdExit_def Let_def upt_rec)

lemma pendingPlaySeq_eq:
  "pendingPlaySeq =
     \<lparr>command = Some 0, numParams = 2, commandParams = Some 1,
      heap = [(3, CString ''x''), (2, CString ''playseq''),
              (1, ParamArray [Some 2, Some 3]), (0, Debuglet CmdPlaySeq)],
      nextAddr = 4, faults = [], game = game0, calls = [CmdExit, CmdExit]\<rparr>"
  by (simp add: pendingPlaySeq_def cmdPlaySeq_def newDebugger_eq
      env0_def emit_def hasCommand_def setCommand_def copyCommand_def
      malloc_def copyParam_def writeParam_def cmdExit_def Let_def upt_rec)





lemma pendingBeetle_eq:
  "pendingBeetle =
     \<lparr>command = Some 0, numParams = 1, commandParams = Some 1,
      heap = [(2, CString ''beetle''), (1, ParamArray [Some 2]), (0, Debuglet CmdBeetle)],
      nextAddr = 3, faults = [], game = game0,
      calls = [RmLoadArchive 2, LoadSceneDataFile 2, CmdExit]\<rparr>"
  by (simp add: pendingBeetle_def cmdBeetle_def newDebugger_eq
      loadArchive_def env0_def emit_def hasCommand_def setCommand_def copyCommand_def
      malloc_def copyParam_def writeParam_def cmdExit_def Let_def upt_rec)

lemma beetleEscape:
  "cmdBeetle env0 3 [''beetle''] pendingBeetle =
     Some (True,
       \<lparr>command = None, numParams = 0, commandParams = None, heap = [],
        nextAddr = 3, faults = [], game = game0,
        calls = [RmLoadArchive 2, LoadSceneDataFile 2, CmdExit, RmLoadArchive 2,
                 LoadSceneDataFile 2, ClearBg BackgroundAll, AskForRedraw, RedrawScreen,
                 AskForRedraw, RedrawScreen, BeetleNew, BeetleLoad, BeetleUpdate,
                 AskForRedraw, RedrawScreen, PollEvent, DelayMillis 10, PollEvent,
                 BeetleUnload, DelayMillis 1000, RmLoadArchive 3, LoadSceneDataFile 3,
                 StopAllSound, ClearBg BackgroundAll, Draw (Scene 5) BackgroundC,
                 AskForRedraw, RedrawScreen]\<rparr>)"
  by (simp add: cmdBeetle_def pendingBeetle_eq loadArchive_def env0_def emit_def emits_def
      invoke_def hasCommand_def beetleBegin_def beetleEnd_def kChapter2_def
      kObjectLocation3_def KEYCODE_ESCAPE_def restoreArchive_def resetCommand_def
      freeParam_def free_def game0_def Let_def eval_nat_numeral upt_rec)

lemma beetleCatch:
  "cmdBeetle env1 3 [''beetle''] pendingBeetle =
     Some (True,
       \<lparr>command = None, numParams = 0, commandParams = None, heap = [],
        nextAddr = 3, faults = [], game = game0,
        calls = [RmLoadArchive 2, LoadSceneDataFile 2, CmdExit, RmLoadArchive 2,
                 LoadSceneDataFile 2, ClearBg BackgroundAll, AskForRedraw, RedrawScreen,
                 AskForRedraw, RedrawScreen, BeetleNew, BeetleLoad, BeetleUpdate,
                 AskForRedraw, RedrawScreen, PollEvent, SetCoordinates, CatchBeetle,
                 DelayMillis 10, PollEvent,
                 BeetleUnload, DelayMillis 1000, RmLoadArchive 3, LoadSceneDataFile 3,
                 StopAllSound, ClearBg BackgroundAll, Draw (Scene 5) BackgroundC,
                 AskForRedraw, RedrawScreen]\<rparr>)"
  by (simp add: cmdBeetle_def pendingBeetle_eq loadArchive_def env1_def env0_def emit_def
      emits_def invoke_def hasCommand_def beetleBegin_def beetleEnd_def beetleClick_def
      kChapter2_def kObjectLocation3_def restoreArchive_def resetCommand_def
      freeParam_def free_def game0_def Let_def eval_nat_numeral upt_rec)

section \<open>The claims\<close>

text \<open>
  C10. \<open>resetCommand\<close> is idempotent. From any state in which the slot is well
  represented (\<open>slotRep\<close>: the parameter count is the number of allocated argument
  strings), one call leaves the handler reference null, the argument vector null and the
  parameter count zero, so that \<open>hasCommand\<close> is false, and frees only allocated
  blocks (no fault is recorded); a second call changes nothing at all: the state,
  with its heap and its record of faults, is the same, so nothing is freed twice.
\<close>

theorem resetCommand_idempotent:
  assumes "slotRep s"
  shows "command (resetCommand s) = None \<and> commandParams (resetCommand s) = None \<and>
         numParams (resetCommand s) = 0 \<and> \<not> hasCommand (resetCommand s) \<and>
         faults (resetCommand s) = faults s \<and>
         resetCommand (resetCommand s) = resetCommand s"
  using resetCommand_no_fault [OF assms]
  by (simp add: resetCommand_cleared resetCommand_idem hasCommand_def)

text \<open>The slot left by a first dispatch of \<open>fight 2002\<close> is well represented; resetting
  it frees its four blocks without a fault.\<close>

theorem resetCommand_idempotent_witness:
  "slotRep pendingFight \<and>
   command (resetCommand pendingFight) = None \<and>
   commandParams (resetCommand pendingFight) = None \<and>
   numParams (resetCommand pendingFight) = 0 \<and> \<not> hasCommand (resetCommand pendingFight) \<and>
   faults (resetCommand pendingFight) = [] \<and>
   heap (resetCommand pendingFight) = [] \<and>
   resetCommand (resetCommand pendingFight) = resetCommand pendingFight"
proof -
  have h: "slotRep pendingFight"
    by (simp add: pendingFight_eq slotRep_def heapOk_def isString_def)
  have e: "heap (resetCommand pendingFight) = []" "faults pendingFight = []"
    by (simp_all add: pendingFight_eq resetCommand_def freeParam_def free_def Let_def upt_rec)
  show ?thesis using h e resetCommand_idempotent [OF h] by simp
qed

text \<open>
  C9. \<open>loadArchive\<close>: for an index outside 1 to 3 it prints the invalid-cd text and
  returns false, with no call to the resource manager or the scene manager; for an index
  in range it returns false after the resource manager failed to open the volume, the
  scene data untouched; when the volume opens it reloads the scene data file of that
  volume and returns true.
\<close>

theorem loadArchive_contract:
  "(index < 1 \<or> index > 3 \<longrightarrow>
      loadArchive env index s = (False, s\<lparr>calls := calls s @ [DebugPrintf (InvalidCd index)]\<rparr>)) \<and>
   (1 \<le> index \<and> index \<le> 3 \<and> \<not> rmLoadArchive env (calls s) index \<longrightarrow>
      loadArchive env index s = (False, s\<lparr>calls := calls s @ [RmLoadArchive index]\<rparr>)) \<and>
   (1 \<le> index \<and> index \<le> 3 \<and> rmLoadArchive env (calls s) index \<longrightarrow>
      loadArchive env index s =
        (True, s\<lparr>calls := calls s @ [RmLoadArchive index, LoadSceneDataFile index]\<rparr>))"
  by (auto simp: loadArchive_def debugPrintf_def emit_def)

text \<open>Indices 0 and 4, volume 2 with a resource manager that opens nothing, and
  volume 1 with one that opens everything.\<close>

theorem loadArchive_contract_witness:
  "loadArchive env0 0 pendingFight =
     (False, pendingFight\<lparr>calls := calls pendingFight @ [DebugPrintf (InvalidCd 0)]\<rparr>) \<and>
   loadArchive env0 4 pendingFight =
     (False, pendingFight\<lparr>calls := calls pendingFight @ [DebugPrintf (InvalidCd 4)]\<rparr>) \<and>
   loadArchive (env0\<lparr>rmLoadArchive := (\<lambda>tr i. False)\<rparr>) 2 pendingFight =
     (False, pendingFight\<lparr>calls := calls pendingFight @ [RmLoadArchive 2]\<rparr>) \<and>
   loadArchive env0 1 pendingFight =
     (True, pendingFight\<lparr>calls := calls pendingFight @ [RmLoadArchive 1, LoadSceneDataFile 1]\<rparr>)"
  using loadArchive_contract [of 0 env0 pendingFight]
    loadArchive_contract [of 4 env0 pendingFight]
    loadArchive_contract [of 2 "env0\<lparr>rmLoadArchive := (\<lambda>tr i. False)\<rparr>" pendingFight]
    loadArchive_contract [of 1 env0 pendingFight]
  by (simp add: env0_def)

text \<open>
  C3. \<open>restoreArchive\<close> loads the archive and then the scene data file of the volume
  that \<open>currentDefaultForChapter\<close> gives for the current chapter, and does nothing
  else: the volume is a function of the chapter alone, not of what was mounted before.
  The mapping sends chapter 1 to volume 1, chapters 2 and 3 to volume 2, chapters 4 and 5
  to volume 3, and every other integer to volume 1.
\<close>

theorem restoreArchive_policy:
  "restoreArchive s =
     s\<lparr>calls := calls s @
        [RmLoadArchive (currentDefaultForChapter (progressChapter (game s))),
         LoadSceneDataFile (currentDefaultForChapter (progressChapter (game s)))]\<rparr> \<and>
   currentDefaultForChapter 1 = 1 \<and>
   currentDefaultForChapter 2 = 2 \<and> currentDefaultForChapter 3 = 2 \<and>
   currentDefaultForChapter 4 = 3 \<and> currentDefaultForChapter 5 = 3 \<and>
   (\<forall>c. c < 1 \<or> 5 < c \<longrightarrow> currentDefaultForChapter c = 1)"
  by (auto simp: restoreArchive_def currentDefaultForChapter_def emit_def Let_def)

text \<open>After \<open>fight 2002\<close> has mounted volume 2 in chapter 4, the restore mounts
  volume 3; chapters 0, 6 and -4 map to volume 1.\<close>

theorem restoreArchive_policy_witness:
  "restoreArchive pendingFight =
     pendingFight\<lparr>calls := [RmLoadArchive 2, LoadSceneDataFile 2, CmdExit,
                              RmLoadArchive 3, LoadSceneDataFile 3]\<rparr> \<and>
   currentDefaultForChapter 0 = 1 \<and> currentDefaultForChapter 6 = 1 \<and>
   currentDefaultForChapter (- 4) = 1"
  using restoreArchive_policy [of pendingFight]
  by (simp add: pendingFight_eq game0_def)

text \<open>
  C8. \<open>delta\<close>: a number outside 1 to 500 (as 0, 501 and -5 are) gets the usage text
  and nothing else changes, the time delta included; a number from 1 to 500 (as 250 is)
  becomes the time delta at once: nothing is stored, the console is not left, nothing
  else changes. A wrong argument count gets the usage text too.
\<close>

theorem cmdTimeDelta_range:
  "(length argv \<noteq> 2 \<longrightarrow>
      cmdTimeDelta argv s = (True, s\<lparr>calls := calls s @ [DebugPrintf SyntaxDelta]\<rparr>)) \<and>
   (getNumber a \<le> 0 \<or> 500 < getNumber a \<longrightarrow>
      cmdTimeDelta [n, a] s = (True, s\<lparr>calls := calls s @ [DebugPrintf SyntaxDelta]\<rparr>)) \<and>
   (1 \<le> getNumber a \<and> getNumber a \<le> 500 \<longrightarrow>
      cmdTimeDelta [n, a] s = (True, s\<lparr>game := (game s)\<lparr>timeDelta := nat (getNumber a)\<rparr>\<rparr>)) \<and>
   getNumber ''0'' = 0 \<and> getNumber ''501'' = 501 \<and> getNumber ''-5'' = - 5 \<and>
   getNumber ''250'' = 250"
  by (auto simp: cmdTimeDelta_def debugPrintf_def emit_def Let_def getNumber_examples)

text \<open>\<open>delta\<close> without a number, \<open>delta 0\<close>, \<open>delta 501\<close>, \<open>delta -5\<close> and
  \<open>delta 250\<close>.\<close>

theorem cmdTimeDelta_range_witness:
  "cmdTimeDelta [''delta''] pendingFight =
     (True, pendingFight\<lparr>calls := calls pendingFight @ [DebugPrintf SyntaxDelta]\<rparr>) \<and>
   cmdTimeDelta [''delta'', ''0''] pendingFight =
     (True, pendingFight\<lparr>calls := calls pendingFight @ [DebugPrintf SyntaxDelta]\<rparr>) \<and>
   cmdTimeDelta [''delta'', ''501''] pendingFight =
     (True, pendingFight\<lparr>calls := calls pendingFight @ [DebugPrintf SyntaxDelta]\<rparr>) \<and>
   cmdTimeDelta [''delta'', ''-5''] pendingFight =
     (True, pendingFight\<lparr>calls := calls pendingFight @ [DebugPrintf SyntaxDelta]\<rparr>) \<and>
   cmdTimeDelta [''delta'', ''250''] pendingFight =
     (True, pendingFight\<lparr>game := (game pendingFight)\<lparr>timeDelta := 250\<rparr>\<rparr>)"
  using cmdTimeDelta_range [of "[''delta'']" pendingFight "''0''" "''delta''"]
    cmdTimeDelta_range [of "[]" pendingFight "''501''" "''delta''"]
    cmdTimeDelta_range [of "[]" pendingFight "''-5''" "''delta''"]
    cmdTimeDelta_range [of "[]" pendingFight "''250''" "''delta''"]
  by simp

text \<open>
  C7. \<open>chapter\<close>: an id of 1 or less or above 6 (as 1 and 7 are) gets the usage text
  and nothing else changes. An id from 2 to 6 (as 3 is) with no command pending is
  deferred: the handler returns false, a command is pending afterwards, the game is
  unchanged and the only call is the one that leaves the console. With the command
  pending (the executing phase) the handler sets the chapter to the id less one, calls
  the chapter switch of the game logic on that state, and clears the slot.
\<close>

theorem cmdSwitchChapter_range:
  "(getNumber a \<le> 1 \<or> 6 < getNumber a \<longrightarrow>
      cmdSwitchChapter env [n, a] s =
        (True, s\<lparr>calls := calls s @ [DebugPrintf SyntaxChapter]\<rparr>)) \<and>
   (2 \<le> getNumber a \<and> getNumber a \<le> 6 \<and> \<not> hasCommand s \<longrightarrow>
      \<not> fst (cmdSwitchChapter env [n, a] s) \<and>
      hasCommand (snd (cmdSwitchChapter env [n, a] s)) \<and>
      command (snd (cmdSwitchChapter env [n, a] s)) \<noteq> None \<and>
      game (snd (cmdSwitchChapter env [n, a] s)) = game s \<and>
      calls (snd (cmdSwitchChapter env [n, a] s)) = calls s @ [CmdExit]) \<and>
   (2 \<le> getNumber a \<and> getNumber a \<le> 6 \<and> hasCommand s \<longrightarrow>
      fst (cmdSwitchChapter env [n, a] s) \<and>
      game (snd (cmdSwitchChapter env [n, a] s)) =
        engineEffect env (calls s) SwitchChapter
          ((game s)\<lparr>progressChapter := getNumber a - 1\<rparr>) \<and>
      calls (snd (cmdSwitchChapter env [n, a] s)) = calls s @ [SwitchChapter] \<and>
      \<not> hasCommand (snd (cmdSwitchChapter env [n, a] s))) \<and>
   getNumber ''1'' = 1 \<and> getNumber ''7'' = 7 \<and> getNumber ''3'' = 3"
  by (auto simp: cmdSwitchChapter_def debugPrintf_def emit_def Let_def getNumber_examples
      store_fields_any hasCommand_def resetCommand_cleared)

text \<open>\<open>chapter 1\<close> and \<open>chapter 7\<close> in a new console; \<open>chapter 3\<close> first in a new
  console, then with itself pending: from chapter 4 the game is put in chapter 2, which
  the switch of the example engine advances to 3.\<close>

theorem cmdSwitchChapter_range_witness:
  "cmdSwitchChapter env0 [''chapter'', ''1''] (newDebugger game0) =
     (True, (newDebugger game0)\<lparr>calls := [DebugPrintf SyntaxChapter]\<rparr>) \<and>
   cmdSwitchChapter env0 [''chapter'', ''7''] (newDebugger game0) =
     (True, (newDebugger game0)\<lparr>calls := [DebugPrintf SyntaxChapter]\<rparr>) \<and>
   \<not> fst (cmdSwitchChapter env0 [''chapter'', ''3''] (newDebugger game0)) \<and>
   hasCommand pendingChapter \<and> game pendingChapter = game0 \<and>
   calls pendingChapter = [CmdExit] \<and>
   fst (cmdSwitchChapter env0 [''chapter'', ''3''] pendingChapter) \<and>
   progressChapter (game (snd (cmdSwitchChapter env0 [''chapter'', ''3''] pendingChapter))) = 3 \<and>
   calls (snd (cmdSwitchChapter env0 [''chapter'', ''3''] pendingChapter)) =
     [CmdExit, SwitchChapter]"
proof -
  have a: "\<not> hasCommand (newDebugger game0)" "calls (newDebugger game0) = []"
    "game (newDebugger game0) = game0"
    by (simp_all add: newDebugger_eq hasCommand_def)
  have b: "hasCommand pendingChapter \<Longrightarrow> calls pendingChapter = [CmdExit] \<Longrightarrow>
    game pendingChapter = game0 \<Longrightarrow>
    engineEffect env0 [CmdExit] SwitchChapter (game0\<lparr>progressChapter := 3 - 1\<rparr>) =
      game0\<lparr>progressChapter := 3\<rparr>"
    by (simp add: env0_def)
  show ?thesis
    using a b cmdSwitchChapter_range [of "''1''" env0 "''chapter''" "newDebugger game0"]
      cmdSwitchChapter_range [of "''7''" env0 "''chapter''" "newDebugger game0"]
      cmdSwitchChapter_range [of "''3''" env0 "''chapter''" "newDebugger game0"]
      cmdSwitchChapter_range [of "''3''" env0 "''chapter''" pendingChapter]
    by (simp add: pendingChapter_def)
qed







text \<open>
  C5. \<open>fight\<close> with the id of the Anna fight, volume 2 being openable. Both
  dispatches mount volume 2 and reload its scene data first. The first, with nothing
  pending, then stores the command and leaves the console. The second, with the command
  pending, clears the screen, runs the fight, prints "Lost fight!" or "Won fight!" by
  its result, and on both results pauses, remounts the volume that is the default of the
  chapter the game is then in, stops the sound, clears the screen, draws the scene that
  was current before the fight, redraws, and empties the slot.
\<close>

theorem cmdFight_anna:
  assumes "getNumber a = kFightAnna" "rmLoadArchive env (calls s) 2"
  shows
    "(\<not> hasCommand s \<longrightarrow>
        \<not> fst (cmdFight env [n, a] s) \<and>
        hasCommand (snd (cmdFight env [n, a] s)) \<and>
        calls (snd (cmdFight env [n, a] s)) =
          calls s @ [RmLoadArchive 2, LoadSceneDataFile 2, CmdExit]) \<and>
     (hasCommand s \<longrightarrow>
        fst (cmdFight env [n, a] s) \<and>
        \<not> hasCommand (snd (cmdFight env [n, a] s)) \<and>
        calls (snd (cmdFight env [n, a] s)) =
          calls s @
          [RmLoadArchive 2, LoadSceneDataFile 2,
           ClearBg BackgroundAll, AskForRedraw, RedrawScreen,
           FightSetup kFightAnna,
           DebugPrintf
             (if engineResult env
                   (calls s @ [RmLoadArchive 2, LoadSceneDataFile 2,
                               ClearBg BackgroundAll, AskForRedraw, RedrawScreen])
                   (FightSetup kFightAnna) (game s)
              then LostFight else WonFight),
           DelayMillis 1000,
           RmLoadArchive (currentDefaultForChapter
             (progressChapter (game (snd (cmdFight env [n, a] s))))),
           LoadSceneDataFile (currentDefaultForChapter
             (progressChapter (game (snd (cmdFight env [n, a] s))))),
           StopAllSound, ClearBg BackgroundAll,
           Draw (Scene (scene (game s))) BackgroundC, AskForRedraw, RedrawScreen])"
proof -
  have la: "loadArchive env 2 s = (True, emits [RmLoadArchive 2, LoadSceneDataFile 2] s)"
    using assms(2) by (simp add: loadArchive_def emit_def emits_def)
  show ?thesis
    using assms(1)
    by (simp add: cmdFight_def Let_def la kFightMilos_def kFightAnna_def store_fields_any
        hasCommand_def fightBegin_def fightEnd_def resetCommand_cleared restoreArchive_calls)
qed

text \<open>\<open>fight 2002\<close> in chapter 4 at scene 5, first in a new console, then pending, with
  a fight that is lost and with one that is won; the fight itself moves the player to
  scene 9.\<close>

theorem cmdFight_anna_witness:
  "getNumber ''2002'' = kFightAnna \<and>
   rmLoadArchive env0 (calls (newDebugger game0)) 2 \<and> \<not> hasCommand (newDebugger game0) \<and>
   calls (snd (cmdFight env0 [''fight'', ''2002''] (newDebugger game0))) =
     [RmLoadArchive 2, LoadSceneDataFile 2, CmdExit] \<and>
   rmLoadArchive env0 (calls pendingFight) 2 \<and> hasCommand pendingFight \<and>
   scene (game pendingFight) = 5 \<and> progressChapter (game pendingFight) = 4 \<and>
   calls (snd (cmdFight env0 [''fight'', ''2002''] pendingFight)) =
     [RmLoadArchive 2, LoadSceneDataFile 2, CmdExit,
      RmLoadArchive 2, LoadSceneDataFile 2, ClearBg BackgroundAll, AskForRedraw, RedrawScreen,
      FightSetup 2002, DebugPrintf LostFight, DelayMillis 1000,
      RmLoadArchive 3, LoadSceneDataFile 3, StopAllSound, ClearBg BackgroundAll,
      Draw (Scene 5) BackgroundC, AskForRedraw, RedrawScreen] \<and>
   calls (snd (cmdFight (env0\<lparr>engineResult := (\<lambda>tr c g. False)\<rparr>) [''fight'', ''2002'']
                 pendingFight)) =
     [RmLoadArchive 2, LoadSceneDataFile 2, CmdExit,
      RmLoadArchive 2, LoadSceneDataFile 2, ClearBg BackgroundAll, AskForRedraw, RedrawScreen,
      FightSetup 2002, DebugPrintf WonFight, DelayMillis 1000,
      RmLoadArchive 3, LoadSceneDataFile 3, StopAllSound, ClearBg BackgroundAll,
      Draw (Scene 5) BackgroundC, AskForRedraw, RedrawScreen]"
proof -
  have g: "getNumber ''2002'' = kFightAnna" by (simp add: getNumber_examples kFightAnna_def)
  have l: "rmLoadArchive env0 (calls (newDebugger game0)) 2"
    "rmLoadArchive env0 (calls pendingFight) 2"
    "rmLoadArchive (env0\<lparr>engineResult := (\<lambda>tr c g. False)\<rparr>) (calls pendingFight) 2"
    by (simp_all add: env0_def)
  have h: "\<not> hasCommand (newDebugger game0)" "hasCommand pendingFight"
    "calls (newDebugger game0) = []" "game pendingFight = game0"
    "calls pendingFight = [RmLoadArchive 2, LoadSceneDataFile 2, CmdExit]"
    by (simp_all add: newDebugger_eq pendingFight_eq hasCommand_def)
  have c: "progressChapter (game (snd (cmdFight env0 [''fight'', ''2002''] pendingFight))) = 4"
    "progressChapter (game (snd (cmdFight (env0\<lparr>engineResult := (\<lambda>tr c g. False)\<rparr>)
        [''fight'', ''2002''] pendingFight))) = 4"
    by (simp_all add: cmdFight_def getNumber_examples kFightMilos_def kFightAnna_def
        loadArchive_def pendingFight_eq env0_def hasCommand_def fightBegin_def fightEnd_def
        game0_def Let_def)
  show ?thesis
    using g l h c
      cmdFight_anna [OF g l(1), of "''fight''"]
      cmdFight_anna [OF g l(2), of "''fight''"]
      cmdFight_anna [OF g l(3), of "''fight''"]
    by (simp add: kFightAnna_def currentDefaultForChapter_def game0_def env0_def)
qed

text \<open>
  C4. \<open>beetle\<close> with the command pending and volume 2 openable. Whenever the game
  loop ends, however it ends, the handler returns true with the slot empty, the chapter
  and the location of the beetle are what they were before the command, and the log ends
  with the pause, the remount of the volume that is the default of that chapter, the
  sound stopped, the screen cleared and the scene that was current before the command
  drawn and shown; the result does not depend on the fuel, more fuel gives the same.
  And the loop does end on both exits: when the first event of the run is the escape
  key and the queue is empty afterwards, and when it is a click that catches the beetle
  and the queue is empty afterwards, the handler returns.
\<close>

theorem cmdBeetle_restores:
  assumes "hasCommand s" "rmLoadArchive env (calls s) 2"
  shows
    "(\<forall>fuel r t. cmdBeetle env fuel [n] s = Some (r, t) \<longrightarrow>
        r \<and> \<not> hasCommand t \<and>
        progressChapter (game t) = progressChapter (game s) \<and>
        beetleLocation (game t) = beetleLocation (game s) \<and>
        (\<exists>mid. calls t =
           calls s @ [RmLoadArchive 2, LoadSceneDataFile 2] @ mid @
           [DelayMillis 1000,
            RmLoadArchive (currentDefaultForChapter (progressChapter (game s))),
            LoadSceneDataFile (currentDefaultForChapter (progressChapter (game s))),
            StopAllSound, ClearBg BackgroundAll, Draw (Scene (scene (game s))) BackgroundC,
            AskForRedraw, RedrawScreen]) \<and>
        (\<forall>fuel'. fuel \<le> fuel' \<longrightarrow> cmdBeetle env fuel' [n] s = Some (r, t))) \<and>
     ((\<forall>tr. pollEvent env (calls s @ tr) =
          (if PollEvent \<in> set tr then None else Some (KeyDown KEYCODE_ESCAPE))) \<longrightarrow>
        (\<exists>t. cmdBeetle env 3 [n] s = Some (True, t))) \<and>
     ((\<forall>tr. pollEvent env (calls s @ tr) =
          (if PollEvent \<in> set tr then None else Some LButtonUp)) \<and>
      (\<forall>tr g. engineResult env tr CatchBeetle g) \<longrightarrow>
        (\<exists>t. cmdBeetle env 3 [n] s = Some (True, t)))"
  using beetle_restored [OF assms] beetle_escape_returns [OF assms]
    beetle_catch_returns [OF assms]
  by blast

text \<open>\<open>beetle\<close> pending in chapter 4 with the beetle at location 7: the player
  presses escape; and the player clicks and catches the beetle, which puts it at
  location 1 before the handler writes 7 back. Both runs return.\<close>

theorem cmdBeetle_restores_witness:
  "hasCommand pendingBeetle \<and> rmLoadArchive env0 (calls pendingBeetle) 2 \<and>
   rmLoadArchive env1 (calls pendingBeetle) 2 \<and>
   progressChapter (game pendingBeetle) = 4 \<and> beetleLocation (game pendingBeetle) = 7 \<and>
   scene (game pendingBeetle) = 5 \<and>
   (\<forall>tr. pollEvent env0 (calls pendingBeetle @ tr) =
      (if PollEvent \<in> set tr then None else Some (KeyDown KEYCODE_ESCAPE))) \<and>
   cmdBeetle env0 3 [''beetle''] pendingBeetle = Some (True, afterEscape) \<and>
   cmdBeetle env0 9 [''beetle''] pendingBeetle = Some (True, afterEscape) \<and>
   \<not> hasCommand afterEscape \<and>
   progressChapter (game afterEscape) = 4 \<and> beetleLocation (game afterEscape) = 7 \<and>
   drop 19 (calls afterEscape) =
     [DelayMillis 1000, RmLoadArchive 3, LoadSceneDataFile 3, StopAllSound,
      ClearBg BackgroundAll, Draw (Scene 5) BackgroundC, AskForRedraw, RedrawScreen] \<and>
   (\<forall>tr. pollEvent env1 (calls pendingBeetle @ tr) =
      (if PollEvent \<in> set tr then None else Some LButtonUp)) \<and>
   (\<forall>tr g. engineResult env1 tr CatchBeetle g) \<and>
   cmdBeetle env1 3 [''beetle''] pendingBeetle = Some (True, afterCatch) \<and>
   CatchBeetle \<in> set (calls afterCatch) \<and>
   \<not> hasCommand afterCatch \<and>
   progressChapter (game afterCatch) = 4 \<and> beetleLocation (game afterCatch) = 7 \<and>
   drop 21 (calls afterCatch) =
     [DelayMillis 1000, RmLoadArchive 3, LoadSceneDataFile 3, StopAllSound,
      ClearBg BackgroundAll, Draw (Scene 5) BackgroundC, AskForRedraw, RedrawScreen]"
proof -
  have h: "hasCommand pendingBeetle" "rmLoadArchive env0 (calls pendingBeetle) 2"
    "rmLoadArchive env1 (calls pendingBeetle) 2"
    by (simp_all add: pendingBeetle_eq hasCommand_def env0_def env1_def)
  have g: "progressChapter (game pendingBeetle) = 4" "beetleLocation (game pendingBeetle) = 7"
    "scene (game pendingBeetle) = 5"
    by (simp_all add: pendingBeetle_eq game0_def)
  have q: "\<forall>tr. pollEvent env0 (calls pendingBeetle @ tr) =
      (if PollEvent \<in> set tr then None else Some (KeyDown KEYCODE_ESCAPE))"
    "\<forall>tr. pollEvent env1 (calls pendingBeetle @ tr) =
      (if PollEvent \<in> set tr then None else Some LButtonUp)"
    "\<forall>tr g. engineResult env1 tr CatchBeetle g"
    by (simp_all add: pendingBeetle_eq env0_def env1_def)
  have e: "cmdBeetle env0 3 [''beetle''] pendingBeetle = Some (True, afterEscape)"
    by (simp add: afterEscape_def beetleEscape)
  have c: "cmdBeetle env1 3 [''beetle''] pendingBeetle = Some (True, afterCatch)"
    by (simp add: afterCatch_def beetleCatch)
  have d: "drop 19 (calls afterEscape) =
     [DelayMillis 1000, RmLoadArchive 3, LoadSceneDataFile 3, StopAllSound,
      ClearBg BackgroundAll, Draw (Scene 5) BackgroundC, AskForRedraw, RedrawScreen]"
    "drop 21 (calls afterCatch) =
     [DelayMillis 1000, RmLoadArchive 3, LoadSceneDataFile 3, StopAllSound,
      ClearBg BackgroundAll, Draw (Scene 5) BackgroundC, AskForRedraw, RedrawScreen]"
    "CatchBeetle \<in> set (calls afterCatch)"
    by (simp_all add: afterEscape_def afterCatch_def beetleEscape beetleCatch)
  note r1 = cmdBeetle_restores [OF h(1) h(2), of "''beetle''", THEN conjunct1, rule_format, OF e]
  note r2 = cmdBeetle_restores [OF h(1) h(3), of "''beetle''", THEN conjunct1, rule_format, OF c]
  have r1a: "\<not> hasCommand afterEscape" "progressChapter (game afterEscape) = 4"
    "beetleLocation (game afterEscape) = 7"
    using r1 g by simp_all
  have r1b: "cmdBeetle env0 9 [''beetle''] pendingBeetle = Some (True, afterEscape)"
    using r1 [THEN conjunct2, THEN conjunct2, THEN conjunct2, THEN conjunct2, THEN conjunct2,
      THEN spec, of 9] by simp
  have r2a: "\<not> hasCommand afterCatch" "progressChapter (game afterCatch) = 4"
    "beetleLocation (game afterCatch) = 7"
    using r2 g by simp_all
  show ?thesis
    using h g q e c d r1a r1b r2a by simp
qed

text \<open>
  C2 fails on the code. \<open>playseq x\<close> for a sequence that loads with no frame: the
  first dispatch stores the command; the pump reaches the test of
  \<open>sequence->count() == 0\<close> in the executing branch and returns false there without
  \<open>resetCommand\<close>, so the state after the pump is the state before it, the command
  still pending.
\<close>

theorem playseq_empty_sequence_stays_pending:
  "cmdPlaySeq env0 [''playseq'', ''x''] (newDebugger game0) = (False, pendingPlaySeq) \<and>
   hasCommand pendingPlaySeq \<and>
   rmHasFile env0 (calls pendingPlaySeq) ''x.seq'' \<and>
   sequenceLoad env0 (calls pendingPlaySeq) ''x.seq'' \<and>
   sequenceCount env0 (calls pendingPlaySeq) ''x.seq'' = 0 \<and>
   readParams pendingPlaySeq = Some [''playseq'', ''x''] \<and>
   cmdPlaySeq env0 [''playseq'', ''x''] pendingPlaySeq = (False, pendingPlaySeq) \<and>
   callCommand env0 0 pendingPlaySeq = Some pendingPlaySeq \<and>
   command pendingPlaySeq = Some 0 \<and> commandParams pendingPlaySeq = Some 1 \<and>
   numParams pendingPlaySeq = 2"
proof -
  have a: "cmdPlaySeq env0 [''playseq'', ''x''] (newDebugger game0) = (False, pendingPlaySeq)"
    by (simp add: pendingPlaySeq_def cmdPlaySeq_def newDebugger_eq env0_def hasCommand_def)
  have b: "cmdPlaySeq env0 [''playseq'', ''x''] pendingPlaySeq = (False, pendingPlaySeq)"
    by (simp add: cmdPlaySeq_def pendingPlaySeq_eq env0_def hasCommand_def)
  have r: "readParams pendingPlaySeq = Some [''playseq'', ''x'']"
    by (simp add: pendingPlaySeq_eq readParams_def readString_def)
  have c: "callCommand env0 0 pendingPlaySeq = Some pendingPlaySeq"
    using b r by (simp add: callCommand_def callHandler_def pendingPlaySeq_eq)
  show ?thesis using a b c r
    by (simp add: pendingPlaySeq_eq hasCommand_def env0_def)
qed

end
